theory Spec2Isabelle
  imports Main
begin

section \<open>Python values, exceptions and strings\<close>

text \<open>
  The values a setting can hold (\<^verbatim>\<open>bool | int | list of str | None\<close>) and Python's
  truth test on them, as \<^verbatim>\<open>if get_setting(...)\<close> and \<^verbatim>\<open>if channel_id\<close> apply it.
\<close>

datatype pyval = PNone | PBool bool | PInt int | PList "string list"

fun truthy :: "pyval \<Rightarrow> bool" where
  "truthy PNone = False"
| "truthy (PBool b) = b"
| "truthy (PInt i) = (i \<noteq> 0)"
| "truthy (PList xs) = (xs \<noteq> [])"

text \<open>
  Exceptions are values. \<open>BackendError\<close> stands for whatever a failing collaborator
  raises (pymongo, the Telegram API, the network); the others are Python's own.
\<close>

datatype exn = AssertionError | TypeError | AttributeError | ValueError | BackendError

text \<open>\<^verbatim>\<open>str.lower()\<close> on ASCII text.\<close>

definition lower_char :: "char \<Rightarrow> char" where
  "lower_char c =
     (case map_of (zip ''ABCDEFGHIJKLMNOPQRSTUVWXYZ'' ''abcdefghijklmnopqrstuvwxyz'') c of
        Some d \<Rightarrow> d
      | None \<Rightarrow> c)"

definition lower :: "string \<Rightarrow> string" where
  "lower s = map lower_char s"

text \<open>\<^verbatim>\<open>s.lstrip('@')\<close> and \<^verbatim>\<open>s.startswith(p)\<close>.\<close>

definition lstrip_at :: "string \<Rightarrow> string" where
  "lstrip_at s = dropWhile (\<lambda>c. c = CHR ''@'') s"

definition startswith :: "string \<Rightarrow> string \<Rightarrow> bool" where
  "startswith s p = (take (length p) s = p)"

text \<open>\<^verbatim>\<open>'%d' % n\<close> and \<^verbatim>\<open>'%s' % x\<close> for an optional string (\<^verbatim>\<open>None\<close> prints as \<^verbatim>\<open>None\<close>).\<close>

fun str_nat :: "nat \<Rightarrow> string" where
  "str_nat n =
     (if n < 10 then [''0123456789'' ! n]
      else str_nat (n div 10) @ [''0123456789'' ! (n mod 10)])"

definition str_int :: "int \<Rightarrow> string" where
  "str_int i = (if i < 0 then CHR ''-'' # str_nat (nat (- i)) else str_nat (nat i))"

definition fmt_s :: "string option \<Rightarrow> string" where
  "fmt_s x = (case x of None \<Rightarrow> ''None'' | Some s \<Rightarrow> s)"

text \<open>\<^verbatim>\<open>html.escape(s)\<close> with its default \<^verbatim>\<open>quote=True\<close>.\<close>

definition escape_char :: "char \<Rightarrow> string" where
  "escape_char c =
     (if c = CHR ''&'' then ''&amp;''
      else if c = CHR ''<'' then ''&lt;''
      else if c = CHR ''>'' then ''&gt;''
      else if c = CHR 0x22 then ''&quot;''
      else if c = CHR 0x27 then ''&#x27;''
      else [c])"

definition html_escape :: "string \<Rightarrow> string" where
  "html_escape s = concat (map escape_char s)"

text \<open>The truth test on an optional string: \<^verbatim>\<open>None\<close> and \<^verbatim>\<open>''\<close> are false.\<close>

definition truthy_str :: "string option \<Rightarrow> bool" where
  "truthy_str x = (case x of None \<Rightarrow> False | Some s \<Rightarrow> s \<noteq> [])"

section \<open>The message, as the handlers read it\<close>

record user =
  u_id :: int
  u_first_name :: "string option"
  u_last_name :: "string option"
  u_username :: "string option"

record chat =
  chat_id :: int
  chat_type :: string
  chat_username :: "string option"

text \<open>
  A marked span of the text. Telegram's offsets and lengths are non-negative, so the
  slice \<^verbatim>\<open>msg.text[ent.offset:ent.offset + ent.length]\<close> is \<open>take\<close> after \<open>drop\<close>.
\<close>

record entity =
  ent_type :: string
  ent_offset :: nat
  ent_length :: nat

record message =
  msg_chat :: chat
  message_id :: int
  from_user :: user
  msg_text :: "string option"
  msg_caption :: "string option"
  entities :: "entity list option"
  forward_from :: "user option"
  forward_from_chat :: "chat option"

section \<open>Collaborators and state\<close>

text \<open>
  A stored deletion event (\<^verbatim>\<open>save_event\<close>): the dump of the message with
  \<^verbatim>\<open>date\<close>, \<^verbatim>\<open>type\<close> and \<^verbatim>\<open>reason\<close> added. Times are microseconds (the resolution
  of \<^verbatim>\<open>datetime\<close>).
\<close>

record event =
  ev_msg :: message
  ev_date :: int
  ev_type :: string
  ev_reason :: string

text \<open>
  What is sent to a chat: a text, or the one-element tuple the \<^verbatim>\<open>json\<close> format builds
  from \<^verbatim>\<open>from_info\<close> and the escaped \<^verbatim>\<open>jsondate.dumps\<close> of the message dump with its
  \<^verbatim>\<open>meta\<close> entry (reason and date); the serialisation itself is not modelled.
\<close>

datatype content = Text string | JsonLog string message string int

text \<open>
  The moderation side effects the handler issues, with their arguments: the write of
  a deletion event (\<^verbatim>\<open>db.event.save\<close>) and the transport calls
  \<^verbatim>\<open>bot.send_message\<close>, \<^verbatim>\<open>bot.forward_message\<close> and \<^verbatim>\<open>bot.delete_message\<close>.
\<close>

datatype effect =
    EventSave event
  | SendMessage int content
  | ForwardMessage int int int
  | DeleteMessage int int

text \<open>The other database operations: the username cache and the settings.\<close>

datatype db_op =
    UserFind string
  | UserUpsert string string
  | ConfigUpsert int string pyval

text \<open>
  Everything the bot does not decide: the exception files, the library and \<^verbatim>\<open>util\<close>
  functions it calls, the administrators of each chat, the clock (the \<open>n\<close>-th call of
  \<^verbatim>\<open>datetime.utcnow()\<close>), and which side effects and database operations raise.
  \<open>urlparse_netloc url\<close> is \<^verbatim>\<open>urlparse(url).netloc\<close>; \<open>re_search_mention\<close> is group 1 of
  \<^verbatim>\<open>re.search(r'(?:^|\W)\@\s([a-zA-Z]+)(?:$|\W)', text)\<close>, \<open>None\<close> when nothing matches.
\<close>

record world =
  LINKS_EXCEPTIONS :: "string list"
  urlparse_netloc :: "string \<Rightarrow> exn + string"
  re_search_mention :: "string \<Rightarrow> string option"
  find_username_links :: "string \<Rightarrow> string list"
  find_external_links :: "string \<Rightarrow> string list"
  fetch_user_type :: "string \<Rightarrow> exn + string option"
  chat_administrators :: "int \<Rightarrow> exn + int list"
  clock :: "nat \<Rightarrow> int"
  effect_fails :: "effect \<Rightarrow> bool"
  db_fails :: "db_op \<Rightarrow> bool"

text \<open>
  The state the handlers share: the collections \<^verbatim>\<open>db.user\<close>, \<^verbatim>\<open>db.event\<close> and
  \<^verbatim>\<open>db.config\<close>, the dictionaries \<^verbatim>\<open>group_config\<close> and \<^verbatim>\<open>delete_events\<close> of
  \<^verbatim>\<open>create_bot\<close>, the side effects issued so far (oldest first, whether or not they
  raised), the channels for which \<^verbatim>\<open>logging.error\<close> was called, and the number of
  clock reads so far.
\<close>

record state =
  users :: "string \<rightharpoonup> string \<times> int"
  events :: "event list"
  config :: "int \<times> string \<rightharpoonup> pyval"
  group_config :: "int \<times> string \<rightharpoonup> pyval"
  delete_events :: "int \<times> int \<rightharpoonup> int"
  effects :: "effect list"
  error_log :: "int list"
  ticks :: nat

text \<open>
  A statement that may raise: it returns the exception or its value, and the state it
  leaves. \<open>try_except\<close> is \<^verbatim>\<open>try: m except Exception: h\<close>; \<open>try_finally\<close> is
  \<^verbatim>\<open>try: m finally: f\<close>, where an exception of \<open>f\<close> replaces the pending outcome.
\<close>

type_synonym 'a prog = "state \<Rightarrow> (exn + 'a) \<times> state"

definition pret :: "'a \<Rightarrow> 'a prog" where
  "pret x s = (Inr x, s)"

definition praise :: "exn \<Rightarrow> 'a prog" where
  "praise e s = (Inl e, s)"

definition lift :: "exn + 'a \<Rightarrow> 'a prog" where
  "lift r s = (r, s)"

definition pbind :: "'a prog \<Rightarrow> ('a \<Rightarrow> 'b prog) \<Rightarrow> 'b prog" where
  "pbind m k s = (case m s of (Inl e, s') \<Rightarrow> (Inl e, s') | (Inr x, s') \<Rightarrow> k x s')"

definition try_except :: "unit prog \<Rightarrow> (exn \<Rightarrow> unit prog) \<Rightarrow> unit prog" where
  "try_except m h s = (case m s of (Inl e, s') \<Rightarrow> h e s' | (Inr x, s') \<Rightarrow> (Inr x, s'))"

definition try_finally :: "'a prog \<Rightarrow> unit prog \<Rightarrow> 'a prog" where
  "try_finally m f s =
     (case m s of (r, s') \<Rightarrow>
        (case f s' of (Inl e, s'') \<Rightarrow> (Inl e, s'') | (Inr _, s'') \<Rightarrow> (r, s'')))"

definition utcnow :: "world \<Rightarrow> int prog" where
  "utcnow w s = (Inr (clock w (ticks s)), s\<lparr>ticks := Suc (ticks s)\<rparr>)"

definition api :: "world \<Rightarrow> effect \<Rightarrow> unit prog" where
  "api w c s =
     (if effect_fails w c then Inl BackendError else Inr (), s\<lparr>effects := effects s @ [c]\<rparr>)"

section \<open>Settings store\<close>

definition GROUP_SETTING_KEYS :: "string list" where
  "GROUP_SETTING_KEYS =
     [''publog'', ''log_channel_id'', ''logformat'', ''channels'', ''groups'', ''links'',
      ''forwarded'', ''emails'', ''kick'']"

definition get_setting :: "(int \<times> string \<rightharpoonup> pyval) \<Rightarrow> int \<Rightarrow> string \<Rightarrow> pyval \<Rightarrow> exn + pyval" where
  "get_setting gc group_id key dflt =
     (if key \<notin> set GROUP_SETTING_KEYS then Inl AssertionError
      else case gc (group_id, key) of Some v \<Rightarrow> Inr v | None \<Rightarrow> Inr dflt)"

text \<open>\<^verbatim>\<open>get_setting(group_config, ...)\<close> on the dictionary of the running bot.\<close>

definition read_setting :: "int \<Rightarrow> string \<Rightarrow> pyval \<Rightarrow> pyval prog" where
  "read_setting group_id key dflt s = (get_setting (group_config s) group_id key dflt, s)"

text \<open>\<^verbatim>\<open>db.config.find_one_and_update(..., upsert=True)\<close>: it raises, or it writes.\<close>

definition db_config_upsert :: "world \<Rightarrow> int \<Rightarrow> string \<Rightarrow> pyval \<Rightarrow> unit prog" where
  "db_config_upsert w group_id key val s =
     (if db_fails w (ConfigUpsert group_id key val) then (Inl BackendError, s)
      else (Inr (), s\<lparr>config := (config s)((group_id, key) \<mapsto> val)\<rparr>))"

definition set_setting :: "world \<Rightarrow> int \<Rightarrow> string \<Rightarrow> pyval \<Rightarrow> unit prog" where
  "set_setting w group_id key val =
     (if key \<notin> set GROUP_SETTING_KEYS then praise AssertionError
      else pbind (db_config_upsert w group_id key val) (\<lambda>_ s.
             (Inr (), s\<lparr>group_config := (group_config s)((group_id, key) \<mapsto> val)\<rparr>)))"

section \<open>Username type resolver\<close>

definition db_user_find_one :: "world \<Rightarrow> string \<Rightarrow> (string \<times> int) option prog" where
  "db_user_find_one w username s =
     (if db_fails w (UserFind username) then (Inl BackendError, s)
      else (Inr (users s username), s))"

definition db_user_upsert :: "world \<Rightarrow> string \<Rightarrow> string \<Rightarrow> int \<Rightarrow> unit prog" where
  "db_user_upsert w username user_type added s =
     (if db_fails w (UserUpsert username user_type) then (Inl BackendError, s)
      else (Inr (), s\<lparr>users := (users s)(username \<mapsto> (user_type, added))\<rparr>))"

text \<open>
  \<^verbatim>\<open>process_user_type\<close>: the stored type when the collection has the lowercased name,
  otherwise the network answer, stored first when it is not empty. The result is
  \<open>None\<close> for Python's \<^verbatim>\<open>None\<close>.
\<close>

definition process_user_type :: "world \<Rightarrow> string \<Rightarrow> string option prog" where
  "process_user_type w username0 =
     (let username = lower username0 in
      pbind (db_user_find_one w username) (\<lambda>user.
        case user of
          Some (ty, added) \<Rightarrow> pret (Some ty)
        | None \<Rightarrow>
            pbind (lift (fetch_user_type w username)) (\<lambda>user_type.
              if truthy_str user_type then
                pbind (utcnow w) (\<lambda>now.
                pbind (db_user_upsert w username (the user_type) now) (\<lambda>_.
                pret user_type))
              else pret user_type)))"

section \<open>Classifier\<close>

definition USERNAME_EXCEPTIONS :: "string list" where
  "USERNAME_EXCEPTIONS = [''blockchainschool'', ''preico'', ''tnam0rken_chanel'']"

text \<open>\<^verbatim>\<open>msg.text[ent.offset:ent.offset + ent.length]\<close>; subscripting \<^verbatim>\<open>None\<close> raises.\<close>

definition text_slice :: "message \<Rightarrow> entity \<Rightarrow> exn + string" where
  "text_slice msg ent =
     (case msg_text msg of
        None \<Rightarrow> Inl TypeError
      | Some t \<Rightarrow> Inr (take (ent_length ent) (drop (ent_offset ent) t)))"

text \<open>
  The decision is the pair of \<^verbatim>\<open>to_delete\<close> and \<^verbatim>\<open>reason\<close>. Every assignment of one
  comes with the other, so the pair is an optional reason: \<open>None\<close> is
  \<^verbatim>\<open>to_delete = False\<close>, and \<open>Some r\<close> is \<^verbatim>\<open>to_delete = True\<close> with \<^verbatim>\<open>reason = r\<close>.

  \<open>group_channel_check\<close> is the \<^verbatim>\<open>if ... elif ...\<close> on the resolved type that the entity
  loop and the caption loop share, with the reasons of the loop.
\<close>

definition group_channel_check :: "int \<Rightarrow> string option \<Rightarrow> string \<Rightarrow> string \<Rightarrow> string option prog" where
  "group_channel_check cid user_type r_group r_channel =
     pbind (if user_type = Some ''group'' then read_setting cid ''groups'' (PBool True)
            else pret (PBool False)) (\<lambda>g.
       if truthy g then pret (Some r_group)
       else
         pbind (if user_type = Some ''channel'' then read_setting cid ''channels'' (PBool True)
                else pret (PBool False)) (\<lambda>c.
           if truthy c then pret (Some r_channel) else pret None))"

text \<open>
  One round of the loop over \<^verbatim>\<open>msg.entities\<close>, split at its three tests. \<open>Some r\<close> is
  the \<^verbatim>\<open>break\<close> with reason \<open>r\<close>; \<open>None\<close> goes on to the next entity.
\<close>

definition entity_mention :: "world \<Rightarrow> message \<Rightarrow> entity \<Rightarrow> string option prog" where
  "entity_mention w msg ent =
     (if ent_type ent = ''mention'' then
        pbind (lift (text_slice msg ent)) (\<lambda>t.
          let username = lstrip_at t in
          if lower username \<in> set USERNAME_EXCEPTIONS then pret None
          else
            pbind (process_user_type w username) (\<lambda>user_type.
              group_channel_check (chat_id (msg_chat msg)) user_type
                ''@-link to group'' ''@-link to channel''))
      else pret None)"

definition entity_email :: "world \<Rightarrow> message \<Rightarrow> entity \<Rightarrow> string option prog" where
  "entity_email w msg ent =
     pbind (if ent_type ent \<in> set [''email'']
            then read_setting (chat_id (msg_chat msg)) ''emails'' (PBool True)
            else pret (PBool False)) (\<lambda>e.
       if truthy e then pret (Some ''email'') else entity_mention w msg ent)"

definition entity_step :: "world \<Rightarrow> message \<Rightarrow> entity \<Rightarrow> string option prog" where
  "entity_step w msg ent =
     pbind (if ent_type ent \<in> set [''url'', ''text_link'']
            then read_setting (chat_id (msg_chat msg)) ''links'' (PBool True)
            else pret (PBool False)) (\<lambda>l.
       if truthy l then
         pbind (lift (text_slice msg ent)) (\<lambda>url0.
           let url = (if \<not> startswith url0 ''//'' \<and> \<not> startswith url0 ''http''
                      then ''//'' @ url0 else url0) in
           pbind (lift (urlparse_netloc w url)) (\<lambda>netloc.
             if lower netloc \<in> set (LINKS_EXCEPTIONS w) then pret None
             else pret (Some ''external link'')))
       else entity_email w msg ent)"

fun entity_loop :: "world \<Rightarrow> message \<Rightarrow> entity list \<Rightarrow> string option prog" where
  "entity_loop w msg [] s = (Inr None, s)"
| "entity_loop w msg (ent # ents) s =
     (case entity_step w msg ent s of
        (Inl e, s') \<Rightarrow> (Inl e, s')
      | (Inr (Some reason), s') \<Rightarrow> (Inr (Some reason), s')
      | (Inr None, s') \<Rightarrow> entity_loop w msg ents s')"

text \<open>
  The free-text rule: the first \<^verbatim>\<open>@ name\<close> the pattern finds in \<^verbatim>\<open>msg.text\<close>
  (searching \<^verbatim>\<open>None\<close> raises), with its two \<^verbatim>\<open>if\<close> tests one after the other.
\<close>

definition free_text_mention :: "world \<Rightarrow> message \<Rightarrow> string option prog" where
  "free_text_mention w msg =
     (case msg_text msg of
        None \<Rightarrow> praise TypeError
      | Some t \<Rightarrow>
          (case re_search_mention w t of
             None \<Rightarrow> pret None
           | Some username \<Rightarrow>
               if lower username \<notin> set USERNAME_EXCEPTIONS then
                 pbind (process_user_type w username) (\<lambda>user_type.
                 pbind (if user_type = Some ''group''
                        then read_setting (chat_id (msg_chat msg)) ''groups'' (PBool True)
                        else pret (PBool False)) (\<lambda>g.
                 pbind (if user_type = Some ''channel''
                        then read_setting (chat_id (msg_chat msg)) ''channels'' (PBool True)
                        else pret (PBool False)) (\<lambda>c.
                 pret (if truthy c then Some ''@-link to channel''
                       else if truthy g then Some ''@-link to group''
                       else None))))
               else pret None))"

text \<open>
  The forwarded test stands in the same \<^verbatim>\<open>if not to_delete\<close> block, after the free-text
  rule and whatever that rule decided.
\<close>

definition is_forward :: "message \<Rightarrow> bool" where
  "is_forward msg = (forward_from msg \<noteq> None \<or> forward_from_chat msg \<noteq> None)"

definition text_rules :: "world \<Rightarrow> message \<Rightarrow> string option prog" where
  "text_rules w msg =
     pbind (free_text_mention w msg) (\<lambda>r.
     pbind (if is_forward msg
            then read_setting (chat_id (msg_chat msg)) ''forwarded'' (PBool True)
            else pret (PBool False)) (\<lambda>f.
     pret (if truthy f then Some ''forwarded'' else r)))"

text \<open>The caption rules; \<^verbatim>\<open>msg.caption or ''\<close> is the text they scan.\<close>

definition caption_or_empty :: "message \<Rightarrow> string" where
  "caption_or_empty msg = (case msg_caption msg of None \<Rightarrow> [] | Some c \<Rightarrow> c)"

definition caption_step :: "world \<Rightarrow> message \<Rightarrow> string \<Rightarrow> string option prog" where
  "caption_step w msg username0 =
     pbind (process_user_type w (lstrip_at username0)) (\<lambda>user_type.
       group_channel_check (chat_id (msg_chat msg)) user_type
         ''caption @-link to group'' ''caption @-link to channel'')"

fun caption_loop :: "world \<Rightarrow> message \<Rightarrow> string list \<Rightarrow> string option prog" where
  "caption_loop w msg [] s = (Inr None, s)"
| "caption_loop w msg (username # usernames) s =
     (case caption_step w msg username s of
        (Inl e, s') \<Rightarrow> (Inl e, s')
      | (Inr (Some reason), s') \<Rightarrow> (Inr (Some reason), s')
      | (Inr None, s') \<Rightarrow> caption_loop w msg usernames s')"

definition caption_links :: "world \<Rightarrow> message \<Rightarrow> string option prog" where
  "caption_links w msg =
     pbind (if find_external_links w (caption_or_empty msg) \<noteq> []
            then read_setting (chat_id (msg_chat msg)) ''links'' (PBool True)
            else pret (PBool False)) (\<lambda>l.
     pret (if truthy l then Some ''caption external link'' else None))"

text \<open>
  The classification part of \<^verbatim>\<open>handle_any_msg\<close> (up to the last \<^verbatim>\<open>if not to_delete\<close>
  block): each later block runs only while nothing is decided.
\<close>

definition classify :: "world \<Rightarrow> message \<Rightarrow> string option prog" where
  "classify w msg =
     pbind (entity_loop w msg (case entities msg of None \<Rightarrow> [] | Some es \<Rightarrow> es)) (\<lambda>r1.
     pbind (if r1 = None then text_rules w msg else pret r1) (\<lambda>r2.
     pbind (if r2 = None
            then caption_loop w msg (find_username_links w (caption_or_empty msg))
            else pret r2) (\<lambda>r3.
     if r3 = None then caption_links w msg else pret r3)))"

section \<open>Event log, notification throttle and audit dispatch\<close>

definition db_event_save :: "world \<Rightarrow> event \<Rightarrow> unit prog" where
  "db_event_save w ev s =
     (if effect_fails w (EventSave ev)
      then (Inl BackendError, s\<lparr>effects := effects s @ [EventSave ev]\<rparr>)
      else (Inr (), s\<lparr>events := events s @ [ev], effects := effects s @ [EventSave ev]\<rparr>))"

definition save_event :: "world \<Rightarrow> string \<Rightarrow> message \<Rightarrow> string \<Rightarrow> unit prog" where
  "save_event w event_type msg reason =
     pbind (utcnow w) (\<lambda>now.
       db_event_save w \<lparr>ev_msg = msg, ev_date = now, ev_type = event_type, ev_reason = reason\<rparr>)"

text \<open>
  The throttle test of the public notice,
  \<^verbatim>\<open>event_key not in delete_events or delete_events[event_key] < utcnow() - timedelta(hours=1)\<close>,
  and the assignment \<^verbatim>\<open>delete_events[event_key] = utcnow()\<close> that follows it. \<open>HOUR\<close> is
  \<^verbatim>\<open>timedelta(hours=1)\<close> in microseconds.
\<close>

definition HOUR :: int where
  "HOUR = 3600 * 1000000"

definition should_notify :: "(int \<times> int \<rightharpoonup> int) \<Rightarrow> int \<times> int \<Rightarrow> int \<Rightarrow> bool" where
  "should_notify de event_key now =
     (case de event_key of None \<Rightarrow> True | Some t \<Rightarrow> t < now - HOUR)"

definition record_notified :: "(int \<times> int \<rightharpoonup> int) \<Rightarrow> int \<times> int \<Rightarrow> int \<Rightarrow> (int \<times> int \<rightharpoonup> int)" where
  "record_notified de event_key now = de(event_key \<mapsto> now)"

definition NOTICE :: string where
  "NOTICE = ''Removed msg from %s. Reason: %s'' @ [CHR 0x0A] @
     ''Messages containing links to these websites will not be deleted: '' @
     ''steemit.com, golos.io and whaleshares.io''"

definition event_key :: "message \<Rightarrow> int \<times> int" where
  "event_key msg = (chat_id (msg_chat msg), u_id (from_user msg))"

text \<open>The clock is read only when the key is in the dictionary (\<^verbatim>\<open>or\<close> stops early).\<close>

definition notify :: "world \<Rightarrow> message \<Rightarrow> unit prog" where
  "notify w msg s =
     (if delete_events s (event_key msg) = None
      then api w (SendMessage (chat_id (msg_chat msg)) (Text NOTICE)) s
      else pbind (utcnow w) (\<lambda>now.
             if should_notify (delete_events s) (event_key msg) now
             then api w (SendMessage (chat_id (msg_chat msg)) (Text NOTICE))
             else pret ()) s)"

definition update_delete_events :: "world \<Rightarrow> message \<Rightarrow> unit prog" where
  "update_delete_events w msg =
     pbind (utcnow w) (\<lambda>now s.
       (Inr (), s\<lparr>delete_events := record_notified (delete_events s) (event_key msg) now\<rparr>))"

text \<open>
  \<^verbatim>\<open>ids = set(); if channel_id: ids.add(channel_id)\<close>: at most one channel. Python's
  \<^verbatim>\<open>True\<close> is the integer 1, and a list cannot be a member of a set.
\<close>

fun channel_ids :: "pyval \<Rightarrow> exn + int list" where
  "channel_ids PNone = Inr []"
| "channel_ids (PBool b) = Inr (if b then [1] else [])"
| "channel_ids (PInt i) = Inr (if i \<noteq> 0 then [i] else [])"
| "channel_ids (PList xs) = (if xs \<noteq> [] then Inl TypeError else Inr [])"

text \<open>\<^verbatim>\<open>x in formats\<close>: membership in a list; the other values are not iterable.\<close>

fun py_in :: "string \<Rightarrow> pyval \<Rightarrow> exn + bool" where
  "py_in x (PList xs) = Inr (x \<in> set xs)"
| "py_in x v = Inl TypeError"

definition from_chatname :: "message \<Rightarrow> string" where
  "from_chatname msg =
     (if truthy_str (chat_username (msg_chat msg))
      then ''@'' @ fmt_s (chat_username (msg_chat msg))
      else ''#'' @ str_int (chat_id (msg_chat msg)))"

definition from_username :: "message \<Rightarrow> string option" where
  "from_username msg =
     (if truthy_str (u_username (from_user msg))
      then Some (''@'' @ fmt_s (u_username (from_user msg)) @ '' ['' @
                 fmt_s (u_first_name (from_user msg)) @ '']'')
      else u_first_name (from_user msg))"

definition from_info :: "message \<Rightarrow> string" where
  "from_info msg =
     ''Chat: '' @ from_chatname msg @ [CHR 0x0A] @ ''User: <a href='' @ [CHR 0x22] @
     ''tg://user?id='' @ str_int (u_id (from_user msg)) @ [CHR 0x22] @ ''>'' @
     fmt_s (from_username msg) @ ''</a>''"

text \<open>\<^verbatim>\<open>msg.text or msg.caption\<close>.\<close>

definition text_or_caption :: "message \<Rightarrow> string option" where
  "text_or_caption msg = (if truthy_str (msg_text msg) then msg_text msg else msg_caption msg)"

definition simple_content :: "message \<Rightarrow> string \<Rightarrow> string \<Rightarrow> string" where
  "simple_content msg reason t =
     from_info msg @ [CHR 0x0A] @ ''Reason: '' @ reason @ [CHR 0x0A] @ ''Content:'' @
     [CHR 0x0A] @ ''<pre>'' @ t @ ''</pre>''"

text \<open>
  The body of the inner \<^verbatim>\<open>try\<close>: the three formats in the source's order, each sent
  when the channel's \<^verbatim>\<open>logformat\<close> has it. \<^verbatim>\<open>html.escape(None)\<close> raises.
\<close>

definition send_formats :: "world \<Rightarrow> message \<Rightarrow> string \<Rightarrow> int \<Rightarrow> pyval \<Rightarrow> unit prog" where
  "send_formats w msg reason chid formats =
     pbind (lift (py_in ''forward'' formats)) (\<lambda>fwd.
     pbind (if fwd
            then api w (ForwardMessage chid (chat_id (msg_chat msg)) (message_id msg))
            else pret ()) (\<lambda>_.
     pbind (lift (py_in ''json'' formats)) (\<lambda>js.
     pbind (if js
            then pbind (utcnow w) (\<lambda>now.
                   api w (SendMessage chid (JsonLog (from_info msg) msg reason now)))
            else pret ()) (\<lambda>_.
     pbind (lift (py_in ''simple'' formats)) (\<lambda>simple.
       if simple then
         (case text_or_caption msg of
            None \<Rightarrow> praise AttributeError
          | Some t \<Rightarrow>
              api w (SendMessage chid (Text (simple_content msg reason (html_escape t)))))
       else pret ())))))"

definition log_error :: "int \<Rightarrow> unit prog" where
  "log_error chid s = (Inr (), s\<lparr>error_log := error_log s @ [chid]\<rparr>)"

definition audit_channel :: "world \<Rightarrow> message \<Rightarrow> string \<Rightarrow> int \<Rightarrow> unit prog" where
  "audit_channel w msg reason chid =
     pbind (read_setting chid ''logformat'' (PList [''simple''])) (\<lambda>formats.
       try_except (send_formats w msg reason chid formats) (\<lambda>ex. log_error chid))"

fun audit_loop :: "world \<Rightarrow> message \<Rightarrow> string \<Rightarrow> int list \<Rightarrow> unit prog" where
  "audit_loop w msg reason [] s = (Inr (), s)"
| "audit_loop w msg reason (chid # ids) s =
     (case audit_channel w msg reason chid s of
        (Inl e, s') \<Rightarrow> (Inl e, s')
      | (Inr _, s') \<Rightarrow> audit_loop w msg reason ids s')"

section \<open>The message handler\<close>

text \<open>
  The body of the outer \<^verbatim>\<open>try\<close>, in three parts after the event is saved: the public
  notice under \<^verbatim>\<open>publog\<close>, the update of \<^verbatim>\<open>delete_events\<close>, and the dispatch to the
  log channel. The local \<^verbatim>\<open>from_user\<close> string it builds is never read and is left
  out.
\<close>

definition publog_notice :: "world \<Rightarrow> message \<Rightarrow> unit prog" where
  "publog_notice w msg =
     pbind (read_setting (chat_id (msg_chat msg)) ''publog'' (PBool True)) (\<lambda>publog.
       if truthy publog then notify w msg else pret ())"

definition audit :: "world \<Rightarrow> message \<Rightarrow> string \<Rightarrow> unit prog" where
  "audit w msg reason =
     pbind (read_setting (chat_id (msg_chat msg)) ''log_channel_id'' PNone) (\<lambda>channel_id.
     pbind (lift (channel_ids channel_id)) (\<lambda>ids.
     audit_loop w msg reason ids))"

definition report :: "world \<Rightarrow> message \<Rightarrow> string \<Rightarrow> unit prog" where
  "report w msg reason =
     pbind (save_event w ''delete_msg'' msg reason) (\<lambda>_.
     pbind (publog_notice w msg) (\<lambda>_.
     pbind (update_delete_events w msg) (\<lambda>_.
     audit w msg reason)))"

definition delete_message :: "world \<Rightarrow> message \<Rightarrow> unit prog" where
  "delete_message w msg = api w (DeleteMessage (chat_id (msg_chat msg)) (message_id msg))"

text \<open>
  What follows \<^verbatim>\<open>if to_delete\<close>: the administrators are asked, an administrator's
  message is left alone, and otherwise the report runs under
  \<^verbatim>\<open>try: ... finally: bot.delete_message(...)\<close>.
\<close>

definition moderate :: "world \<Rightarrow> message \<Rightarrow> string \<Rightarrow> unit prog" where
  "moderate w msg reason =
     pbind (lift (chat_administrators w (chat_id (msg_chat msg)))) (\<lambda>admins.
       if u_id (from_user msg) \<in> set admins then pret ()
       else try_finally (report w msg reason) (delete_message w msg))"

definition handle_any_msg :: "world \<Rightarrow> message \<Rightarrow> unit prog" where
  "handle_any_msg w msg =
     pbind (classify w msg) (\<lambda>r.
       case r of None \<Rightarrow> pret () | Some reason \<Rightarrow> moderate w msg reason)"

section \<open>Concrete collaborators\<close>

text \<open>
  The library functions on ASCII text, for running the handler on concrete messages.
  \<open>search_mention\<close> is the pattern \<^verbatim>\<open>(?:^|\W)\@\s([a-zA-Z]+)(?:$|\W)\<close>: the candidates
  for \<^verbatim>\<open>@\<close> are tried from the left, the first at the start of the text and the others
  after a non-word character; the letters are taken greedily, and giving some back
  never helps, since a letter is a word character.
\<close>

definition ascii_letters :: string where
  "ascii_letters = ''abcdefghijklmnopqrstuvwxyzABCDEFGHIJKLMNOPQRSTUVWXYZ''"

definition is_alpha :: "char \<Rightarrow> bool" where
  "is_alpha c = (c \<in> set ascii_letters)"

definition is_word :: "char \<Rightarrow> bool" where
  "is_word c = (c \<in> set (ascii_letters @ ''0123456789_''))"

definition is_space :: "char \<Rightarrow> bool" where
  "is_space c =
     (c \<in> set [CHR '' '', CHR 0x09, CHR 0x0A, CHR 0x0B, CHR 0x0C, CHR 0x0D,
               CHR 0x1C, CHR 0x1D, CHR 0x1E, CHR 0x1F])"

definition match_mention :: "string \<Rightarrow> string option" where
  "match_mention s =
     (case s of
        c1 # c2 # rest \<Rightarrow>
          if c1 = CHR ''@'' \<and> is_space c2 \<and> takeWhile is_alpha rest \<noteq> [] \<and>
             (case dropWhile is_alpha rest of [] \<Rightarrow> True | c # _ \<Rightarrow> \<not> is_word c)
          then Some (takeWhile is_alpha rest) else None
      | _ \<Rightarrow> None)"

fun scan_mention :: "string \<Rightarrow> string option" where
  "scan_mention [] = None"
| "scan_mention (c # cs) =
     (if is_word c then scan_mention cs
      else case match_mention cs of Some n \<Rightarrow> Some n | None \<Rightarrow> scan_mention cs)"

definition search_mention :: "string \<Rightarrow> string option" where
  "search_mention s = (case match_mention s of Some n \<Rightarrow> Some n | None \<Rightarrow> scan_mention s)"

text \<open>
  \<open>netloc_of\<close> is \<^verbatim>\<open>urlparse(url).netloc\<close> on URLs of printable ASCII characters
  without brackets: a scheme before the first colon is cut off, and what follows
  \<^verbatim>\<open>//\<close> up to the first of \<^verbatim>\<open>/?#\<close> is the host part. Of the tests that raise, the
  one for an unbalanced bracket is kept; the removal of tabs and line breaks and the
  validation of a bracketed host, which recent versions of the library add, are not
  modelled. Likewise \<open>is_space\<close> is the pattern's \<^verbatim>\<open>\s\<close> on ASCII text only.
\<close>

definition strip_scheme :: "string \<Rightarrow> string" where
  "strip_scheme url =
     (let pre = takeWhile (\<lambda>c. c \<noteq> CHR '':'') url in
      if pre \<noteq> [] \<and> length pre < length url \<and> is_alpha (hd pre) \<and>
         list_all (\<lambda>c. c \<in> set (ascii_letters @ ''0123456789+-.'')) pre
      then drop (Suc (length pre)) url else url)"

definition netloc_of :: "string \<Rightarrow> exn + string" where
  "netloc_of url =
     (let rest = strip_scheme url in
      if take 2 rest = ''//'' then
        (let n = takeWhile (\<lambda>c. c \<notin> set ''/?#'') (drop 2 rest) in
         if (CHR ''['' \<in> set n) \<noteq> (CHR '']'' \<in> set n) then Inl ValueError else Inr n)
      else Inr [])"

fun tokens_acc :: "string \<Rightarrow> string \<Rightarrow> string list" where
  "tokens_acc cur [] = (if cur = [] then [] else [cur])"
| "tokens_acc cur (c # cs) =
     (if c = CHR '' '' then (if cur = [] then tokens_acc [] cs else cur # tokens_acc [] cs)
      else tokens_acc (cur @ [c]) cs)"

text \<open>
  Modelled from the spec: \<^verbatim>\<open>util.find_username_links\<close>, which is not among the
  sources. The spec has it scan the caption for username-mention patterns; here a
  mention is a token that starts with \<^verbatim>\<open>@\<close> and has more after it.
\<close>

definition caption_usernames :: "string \<Rightarrow> string list" where
  "caption_usernames c = filter (\<lambda>t. take 1 t = ''@'' \<and> 1 < length t) (tokens_acc [] c)"

text \<open>
  Modelled from the spec: \<^verbatim>\<open>util.find_external_links\<close>, which is not among the
  sources. The spec has it scan the caption for bare external links; here a link is a
  token with a dot inside it.
\<close>

definition caption_external_links :: "string \<Rightarrow> string list" where
  "caption_external_links c =
     filter (\<lambda>t. CHR ''.'' \<in> set (butlast (drop 1 t))) (tokens_acc [] c)"

text \<open>
  Modelled from the spec: \<^verbatim>\<open>util.fetch_user_type\<close>, which is not among the sources.
  The spec has it look the type of a username up on the network; here the network
  knows four names.
\<close>

definition directory :: "string \<Rightarrow> exn + string option" where
  "directory username =
     Inr (map_of [(''spamgroup'', ''group''), (''spamchannel'', ''channel''),
                  (''alice'', ''user''), (''bob'', ''user'')] username)"

text \<open>
  A world where nothing raises: the three sites the public notice names are the
  exception list, user 100 administers every chat, and the clock advances by one
  microsecond per read. \<open>state0\<close> is the bot right after an empty start.
\<close>

definition world0 :: world where
  "world0 =
     \<lparr>LINKS_EXCEPTIONS = [''steemit.com'', ''golos.io'', ''whaleshares.io''],
      urlparse_netloc = netloc_of,
      re_search_mention = search_mention,
      find_username_links = caption_usernames,
      find_external_links = caption_external_links,
      fetch_user_type = directory,
      chat_administrators = (\<lambda>c. Inr [100]),
      clock = (\<lambda>n. 1000 + int n),
      effect_fails = (\<lambda>c. False),
      db_fails = (\<lambda>d. False)\<rparr>"

definition state0 :: state where
  "state0 =
     \<lparr>users = Map.empty, events = [], config = Map.empty, group_config = Map.empty,
      delete_events = Map.empty, effects = [], error_log = [], ticks = 0\<rparr>"

definition user7 :: user where
  "user7 = \<lparr>u_id = 7, u_first_name = Some ''Eve'', u_last_name = None, u_username = Some ''eve''\<rparr>"

definition chat1 :: chat where
  "chat1 = \<lparr>chat_id = 1, chat_type = ''supergroup'', chat_username = Some ''room''\<rparr>"

definition text_msg :: "string \<Rightarrow> entity list \<Rightarrow> message" where
  "text_msg t es =
     \<lparr>msg_chat = chat1, message_id = 10, from_user = user7, msg_text = Some t,
      msg_caption = None, entities = Some es, forward_from = None,
      forward_from_chat = None\<rparr>"

definition link_msg :: message where
  "link_msg =
     text_msg ''check out http://evil.example/x''
       [\<lparr>ent_type = ''url'', ent_offset = 10, ent_length = 21\<rparr>]"

text \<open>
  Failing collaborators: the event write, the forward to a log channel, and the
  \<^verbatim>\<open>json\<close> send to a log channel.
\<close>

definition event_write_fails :: "effect \<Rightarrow> bool" where
  "event_write_fails e = (case e of EventSave ev \<Rightarrow> True | _ \<Rightarrow> False)"

definition forward_fails :: "effect \<Rightarrow> bool" where
  "forward_fails e = (case e of ForwardMessage c f m \<Rightarrow> True | _ \<Rightarrow> False)"

definition json_fails :: "effect \<Rightarrow> bool" where
  "json_fails e = (case e of SendMessage c (JsonLog i m r d) \<Rightarrow> True | _ \<Rightarrow> False)"

text \<open>Chat 1 logs to channel 50, which asks for all three formats.\<close>

definition logging_state :: state where
  "logging_state =
     state0\<lparr>group_config :=
       [(1, ''log_channel_id'') \<mapsto> PInt 50,
        (50, ''logformat'') \<mapsto> PList [''forward'', ''json'', ''simple'']]\<rparr>"

text \<open>
  A clock that reads whole hours, and a bot that recorded a deletion by user 7 in
  chat 1 at time 0: the handler's throttle test is the second read of the clock, one
  hour (3600 seconds) after that record.
\<close>

definition hour_world :: world where
  "hour_world = world0\<lparr>clock := \<lambda>n. int n * 3600000000\<rparr>"

definition throttled_state :: state where
  "throttled_state = state0\<lparr>delete_events := [(1, 7) \<mapsto> 0]\<rparr>"

text \<open>
  A forwarded text message that spells a mention of a group with a space after the
  \<^verbatim>\<open>@\<close>, so that no entity marks it.
\<close>

definition channel9 :: chat where
  "channel9 = \<lparr>chat_id = 9, chat_type = ''channel'', chat_username = Some ''news''\<rparr>"

definition forwarded_mention_msg :: message where
  "forwarded_mention_msg = (text_msg ''@ spamgroup'' [])\<lparr>forward_from_chat := Some channel9\<rparr>"

text \<open>
  Messages with a link to a site of the exception list: in the caption, as a URL
  entity when the list spells the site with a capital letter, and as a URL entity that
  names the port.
\<close>

definition caption_link_msg :: message where
  "caption_link_msg = (text_msg ''look'' [])\<lparr>msg_caption := Some ''steemit.com/x''\<rparr>"

definition capital_world :: world where
  "capital_world = world0\<lparr>LINKS_EXCEPTIONS := [''Steemit.com'']\<rparr>"

definition capital_link_msg :: message where
  "capital_link_msg =
     text_msg ''Steemit.com'' [\<lparr>ent_type = ''url'', ent_offset = 0, ent_length = 11\<rparr>]"

definition port_link_msg :: message where
  "port_link_msg =
     text_msg ''http://steemit.com:80/x''
       [\<lparr>ent_type = ''url'', ent_offset = 0, ent_length = 23\<rparr>]"

definition excepted_link_msg :: message where
  "excepted_link_msg =
     text_msg ''see Steemit.com/x''
       [\<lparr>ent_type = ''url'', ent_offset = 4, ent_length = 13\<rparr>]"

text \<open>Mentions of an ordinary user: as an entity, in free text, and in a caption.\<close>

definition user_mention_msg :: message where
  "user_mention_msg =
     text_msg ''hi @alice'' [\<lparr>ent_type = ''mention'', ent_offset = 3, ent_length = 6\<rparr>]"

definition user_free_text_msg :: message where
  "user_free_text_msg = text_msg ''hi @ alice'' []"

text \<open>An administrator of chat 1 mentions a group.\<close>

definition admin_mention_msg :: message where
  "admin_mention_msg =
     (text_msg ''join @spamgroup''
        [\<lparr>ent_type = ''mention'', ent_offset = 5, ent_length = 10\<rparr>])
     \<lparr>from_user := user7\<lparr>u_id := 100\<rparr>\<rparr>"

text \<open>Another sender in chat 1.\<close>

definition user8 :: user where
  "user8 = \<lparr>u_id = 8, u_first_name = Some ''Bob'', u_last_name = Some ''B'', u_username = None\<rparr>"

definition links_off_state :: state where
  "links_off_state = state0\<lparr>group_config := [(1, ''links'') \<mapsto> PBool False]\<rparr>"

section \<open>Vocabulary of the proofs\<close>

text \<open>
  \<open>frame s s'\<close>: from \<open>s\<close> to \<open>s'\<close> nothing changed but the username cache and the
  clock. \<open>appends s s'\<close>: the side effects of \<open>s'\<close> extend those of \<open>s\<close>, and no event
  was stored. \<open>the_event w msg reason s\<close> is the event \<^verbatim>\<open>save_event\<close> writes when it
  starts in \<open>s\<close>. \<open>planned_sends w msg reason chid fs s\<close> are the sends a channel with the
  format list \<open>fs\<close> asks for, in the order forward, json, simple, and
  \<open>upto_failure bad es\<close> is \<open>es\<close> up to and including its first element that raises.
\<close>

definition frame :: "state \<Rightarrow> state \<Rightarrow> bool" where
  "frame s s' \<longleftrightarrow>
     events s' = events s \<and> config s' = config s \<and> group_config s' = group_config s \<and>
     delete_events s' = delete_events s \<and> effects s' = effects s \<and>
     error_log s' = error_log s"

definition appends :: "state \<Rightarrow> state \<Rightarrow> bool" where
  "appends s s' \<longleftrightarrow> (\<exists>xs. effects s' = effects s @ xs) \<and> events s' = events s"

definition the_event :: "world \<Rightarrow> message \<Rightarrow> string \<Rightarrow> state \<Rightarrow> event" where
  "the_event w msg reason s =
     \<lparr>ev_msg = msg, ev_date = clock w (ticks s), ev_type = ''delete_msg'', ev_reason = reason\<rparr>"

fun upto_failure :: "(effect \<Rightarrow> bool) \<Rightarrow> effect list \<Rightarrow> effect list" where
  "upto_failure bad [] = []"
| "upto_failure bad (e # es) = (if bad e then [e] else e # upto_failure bad es)"

definition planned_sends :: "world \<Rightarrow> message \<Rightarrow> string \<Rightarrow> int \<Rightarrow> string list \<Rightarrow> state \<Rightarrow> effect list" where
  "planned_sends w msg reason chid fs s =
     (if ''forward'' \<in> set fs
      then [ForwardMessage chid (chat_id (msg_chat msg)) (message_id msg)] else []) @
     (if ''json'' \<in> set fs
      then [SendMessage chid (JsonLog (from_info msg) msg reason (clock w (ticks s)))] else []) @
     (if ''simple'' \<in> set fs
      then (case text_or_caption msg of
              None \<Rightarrow> []
            | Some t \<Rightarrow> [SendMessage chid (Text (simple_content msg reason (html_escape t)))])
      else [])"

section \<open>The monad and the frame of classification\<close>

lemma frame_refl: "frame s s"
  by (simp add: frame_def)

lemma frame_trans: "frame s s1 \<Longrightarrow> frame s1 s2 \<Longrightarrow> frame s s2"
  by (simp add: frame_def)

lemma frame_process_user_type: "process_user_type w u s = (r, s') \<Longrightarrow> frame s s'"
  by (auto simp add: process_user_type_def Let_def pbind_def pret_def lift_def utcnow_def
      db_user_find_one_def db_user_upsert_def frame_def
      split: if_splits prod.splits sum.splits option.splits)

lemma group_channel_check_state:
  "group_channel_check c ut rg rc s = (r, s') \<Longrightarrow> s' = s"
  by (auto simp add: group_channel_check_def pbind_def pret_def read_setting_def
      split: if_splits prod.splits sum.splits)

lemma group_channel_check_reason:
  "group_channel_check c ut rg rc s = (Inr (Some x), s') \<Longrightarrow> x = rg \<or> x = rc"
  by (auto simp add: group_channel_check_def pbind_def pret_def read_setting_def
      split: if_splits prod.splits sum.splits)

lemma frame_entity_mention: "entity_mention w msg ent s = (r, s') \<Longrightarrow> frame s s'"
  by (auto simp add: entity_mention_def Let_def pbind_def pret_def lift_def frame_refl
      dest!: frame_process_user_type group_channel_check_state
      split: if_splits prod.splits sum.splits)

lemma frame_entity_email: "entity_email w msg ent s = (r, s') \<Longrightarrow> frame s s'"
  by (auto simp add: entity_email_def pbind_def pret_def read_setting_def frame_refl
      dest!: frame_entity_mention
      split: if_splits prod.splits sum.splits)

lemma frame_entity_step: "entity_step w msg ent s = (r, s') \<Longrightarrow> frame s s'"
  by (auto simp add: entity_step_def Let_def pbind_def pret_def lift_def read_setting_def frame_refl
      dest!: frame_entity_email
      split: if_splits prod.splits sum.splits)

lemma frame_entity_loop: "entity_loop w msg ents s = (r, s') \<Longrightarrow> frame s s'"
proof (induction ents arbitrary: s)
  case Nil
  then show ?case by (simp add: frame_refl)
next
  case (Cons ent ents)
  obtain r1 s1 where step: "entity_step w msg ent s = (r1, s1)"
    by (cases "entity_step w msg ent s")
  then have f1: "frame s s1" by (rule frame_entity_step)
  show ?case
  proof (cases r1)
    case (Inl e)
    with Cons.prems step f1 show ?thesis by simp
  next
    case (Inr d)
    show ?thesis
    proof (cases d)
      case None
      with Cons.prems step Inr have "entity_loop w msg ents s1 = (r, s')" by simp
      then have "frame s1 s'" by (rule Cons.IH)
      with f1 show ?thesis by (rule frame_trans)
    next
      case (Some a)
      with Cons.prems step Inr f1 show ?thesis by simp
    qed
  qed
qed

lemma frame_free_text_mention: "free_text_mention w msg s = (r, s') \<Longrightarrow> frame s s'"
  by (auto simp add: free_text_mention_def pbind_def pret_def praise_def read_setting_def
      frame_refl dest!: frame_process_user_type
      split: if_splits prod.splits sum.splits option.splits)

lemma frame_text_rules: "text_rules w msg s = (r, s') \<Longrightarrow> frame s s'"
  by (auto simp add: text_rules_def pbind_def pret_def read_setting_def
      dest!: frame_free_text_mention
      split: if_splits prod.splits sum.splits)

lemma frame_caption_step: "caption_step w msg u s = (r, s') \<Longrightarrow> frame s s'"
  by (auto simp add: caption_step_def pbind_def
      dest!: frame_process_user_type group_channel_check_state
      split: prod.splits sum.splits)

lemma frame_caption_loop: "caption_loop w msg us s = (r, s') \<Longrightarrow> frame s s'"
proof (induction us arbitrary: s)
  case Nil
  then show ?case by (simp add: frame_refl)
next
  case (Cons u us)
  obtain r1 s1 where step: "caption_step w msg u s = (r1, s1)"
    by (cases "caption_step w msg u s")
  then have f1: "frame s s1" by (rule frame_caption_step)
  show ?case
  proof (cases r1)
    case (Inl e)
    with Cons.prems step f1 show ?thesis by simp
  next
    case (Inr d)
    show ?thesis
    proof (cases d)
      case None
      with Cons.prems step Inr have "caption_loop w msg us s1 = (r, s')" by simp
      then have "frame s1 s'" by (rule Cons.IH)
      with f1 show ?thesis by (rule frame_trans)
    next
      case (Some a)
      with Cons.prems step Inr f1 show ?thesis by simp
    qed
  qed
qed

lemma caption_links_state: "caption_links w msg s = (r, s') \<Longrightarrow> s' = s"
  by (auto simp add: caption_links_def pbind_def pret_def read_setting_def
      split: if_splits prod.splits sum.splits)

text \<open>The four stages of classify, one after the other.\<close>

lemma classify_cases:
  assumes "classify w msg s = (r, s')"
  obtains
    (by_entities) "entity_loop w msg (case entities msg of None \<Rightarrow> [] | Some es \<Rightarrow> es) s = (r, s')"
      "r \<noteq> Inr None"
  | (by_text) s1 where
      "entity_loop w msg (case entities msg of None \<Rightarrow> [] | Some es \<Rightarrow> es) s = (Inr None, s1)"
      "text_rules w msg s1 = (r, s')" "r \<noteq> Inr None"
  | (by_caption) s1 s2 where
      "entity_loop w msg (case entities msg of None \<Rightarrow> [] | Some es \<Rightarrow> es) s = (Inr None, s1)"
      "text_rules w msg s1 = (Inr None, s2)"
      "caption_loop w msg (find_username_links w (caption_or_empty msg)) s2 = (r, s')"
      "r \<noteq> Inr None"
  | (by_links) s1 s2 s3 where
      "entity_loop w msg (case entities msg of None \<Rightarrow> [] | Some es \<Rightarrow> es) s = (Inr None, s1)"
      "text_rules w msg s1 = (Inr None, s2)"
      "caption_loop w msg (find_username_links w (caption_or_empty msg)) s2 = (Inr None, s3)"
      "caption_links w msg s3 = (r, s')"
  using assms
  by (auto simp add: classify_def pbind_def pret_def
      split: prod.splits sum.splits if_splits)

lemma frame_classify:
  assumes "classify w msg s = (r, s')"
  shows "frame s s'"
  using assms
proof (cases rule: classify_cases)
  case by_entities
  then show ?thesis by (auto dest: frame_entity_loop)
next
  case (by_text s1)
  then show ?thesis by (auto dest!: frame_entity_loop frame_text_rules intro: frame_trans)
next
  case (by_caption s1 s2)
  then show ?thesis
    by (auto dest!: frame_entity_loop frame_text_rules frame_caption_loop intro: frame_trans)
next
  case (by_links s1 s2 s3)
  then show ?thesis
    by (auto dest!: frame_entity_loop frame_text_rules frame_caption_loop caption_links_state
        intro: frame_trans)
qed

text \<open>
  Claim C9. When the classifier flags a message and its sender is among the
  administrators of the chat, the handler returns at once, after classification and
  before any side effect: the state it leaves is the state classification left, no side
  effect was issued (no event write, no public notice, no audit send, no deletion), no
  event was stored, and the throttle dictionary and the error log are as they were.
  Classification itself may have filled the username cache.
\<close>

theorem administrator_is_exempt:
  assumes "classify w msg s = (Inr (Some reason), s1)"
    and "chat_administrators w (chat_id (msg_chat msg)) = Inr admins"
    and "u_id (from_user msg) \<in> set admins"
  shows "handle_any_msg w msg s = (Inr (), s1) \<and>
         effects s1 = effects s \<and> events s1 = events s \<and>
         delete_events s1 = delete_events s \<and> error_log s1 = error_log s"
proof -
  from assms(1) have "frame s s1" by (rule frame_classify)
  moreover have "handle_any_msg w msg s = (Inr (), s1)"
    using assms by (simp add: handle_any_msg_def moderate_def pbind_def lift_def pret_def)
  ultimately show ?thesis by (simp add: frame_def)
qed


lemma entity_mention_reason:
  "entity_mention w msg ent s = (Inr (Some x), s') \<Longrightarrow>
   x = ''@-link to group'' \<or> x = ''@-link to channel''"
  by (auto simp add: entity_mention_def Let_def pbind_def pret_def lift_def
      dest!: group_channel_check_reason
      split: if_splits prod.splits sum.splits)

lemma entity_email_reason:
  "entity_email w msg ent s = (Inr (Some x), s') \<Longrightarrow>
   x = ''email'' \<or> x = ''@-link to group'' \<or> x = ''@-link to channel''"
  by (auto simp add: entity_email_def pbind_def pret_def read_setting_def
      dest!: entity_mention_reason
      split: if_splits prod.splits sum.splits)

lemma entity_step_links_off:
  assumes "group_config s (chat_id (msg_chat msg), ''links'') = Some v" and "\<not> truthy v"
  shows "entity_step w msg ent s = entity_email w msg ent s"
  using assms
  by (simp add: entity_step_def pbind_def pret_def read_setting_def get_setting_def
      GROUP_SETTING_KEYS_def)

lemma entity_loop_links_off:
  assumes "group_config s (chat_id (msg_chat msg), ''links'') = Some v" and "\<not> truthy v"
    and "entity_loop w msg ents s = (Inr (Some x), s')"
  shows "x = ''email'' \<or> x = ''@-link to group'' \<or> x = ''@-link to channel''"
  using assms
proof (induction ents arbitrary: s)
  case Nil
  then show ?case by simp
next
  case (Cons ent ents)
  obtain r1 s1 where step: "entity_step w msg ent s = (r1, s1)"
    by (cases "entity_step w msg ent s")
  then have email: "entity_email w msg ent s = (r1, s1)"
    using Cons.prems(1,2) by (simp add: entity_step_links_off)
  from step have "frame s s1" by (rule frame_entity_step)
  then have cfg: "group_config s1 (chat_id (msg_chat msg), ''links'') = Some v"
    using Cons.prems(1) by (simp add: frame_def)
  show ?case
  proof (cases r1)
    case (Inl e)
    with Cons.prems(3) step show ?thesis by simp
  next
    case (Inr d)
    show ?thesis
    proof (cases d)
      case None
      with Cons.prems(3) step Inr have "entity_loop w msg ents s1 = (Inr (Some x), s')" by simp
      with cfg Cons.prems(2) show ?thesis by (rule Cons.IH)
    next
      case (Some y)
      with Cons.prems(3) step Inr have "y = x" by simp
      with email Inr Some show ?thesis by (auto dest: entity_email_reason)
    qed
  qed
qed

lemma text_rules_reason:
  "text_rules w msg s = (Inr (Some x), s') \<Longrightarrow>
   x = ''@-link to group'' \<or> x = ''@-link to channel'' \<or> x = ''forwarded''"
  by (auto simp add: text_rules_def free_text_mention_def pbind_def pret_def praise_def
      read_setting_def
      split: if_splits prod.splits sum.splits option.splits)

lemma caption_step_reason:
  "caption_step w msg u s = (Inr (Some x), s') \<Longrightarrow>
   x = ''caption @-link to group'' \<or> x = ''caption @-link to channel''"
  by (auto simp add: caption_step_def pbind_def
      dest!: group_channel_check_reason
      split: prod.splits sum.splits)

lemma caption_loop_reason:
  "caption_loop w msg us s = (Inr (Some x), s') \<Longrightarrow>
   x = ''caption @-link to group'' \<or> x = ''caption @-link to channel''"
proof (induction us arbitrary: s)
  case Nil
  then show ?case by simp
next
  case (Cons u us)
  obtain r1 s1 where step: "caption_step w msg u s = (r1, s1)"
    by (cases "caption_step w msg u s")
  show ?case
  proof (cases r1)
    case (Inl e)
    with Cons.prems step show ?thesis by simp
  next
    case (Inr d)
    show ?thesis
    proof (cases d)
      case None
      with Cons.prems step Inr have "caption_loop w msg us s1 = (Inr (Some x), s')" by simp
      then show ?thesis by (rule Cons.IH)
    next
      case (Some y)
      with Cons.prems step Inr have "y = x" by simp
      with step Inr Some show ?thesis by (auto dest: caption_step_reason)
    qed
  qed
qed

lemma caption_links_off:
  assumes "group_config s (chat_id (msg_chat msg), ''links'') = Some v" and "\<not> truthy v"
  shows "caption_links w msg s = (Inr None, s)"
  using assms
  by (simp add: caption_links_def pbind_def pret_def read_setting_def get_setting_def
      GROUP_SETTING_KEYS_def)

text \<open>
  Claim C5. In a chat whose \<^verbatim>\<open>links\<close> setting is stored with a false value, the
  classifier never gives the reason \<^verbatim>\<open>external link\<close> nor the reason
  \<^verbatim>\<open>caption external link\<close>, whatever the message, its entities and its caption are.
\<close>

theorem links_off_never_link_reason:
  assumes off: "group_config s (chat_id (msg_chat msg), ''links'') = Some v" "\<not> truthy v"
  shows "fst (classify w msg s) \<noteq> Inr (Some ''external link'') \<and>
         fst (classify w msg s) \<noteq> Inr (Some ''caption external link'')"
proof -
  obtain r s' where run: "classify w msg s = (r, s')"
    by (cases "classify w msg s")
  have "r \<noteq> Inr (Some ''external link'') \<and> r \<noteq> Inr (Some ''caption external link'')"
    using run
  proof (cases rule: classify_cases)
    case by_entities
    then show ?thesis using off by (auto dest!: entity_loop_links_off)
  next
    case (by_text s1)
    then show ?thesis by (auto dest!: text_rules_reason)
  next
    case (by_caption s1 s2)
    then show ?thesis by (auto dest!: caption_loop_reason)
  next
    case (by_links s1 s2 s3)
    from by_links(1-3) have "frame s s3"
      by (auto dest!: frame_entity_loop frame_text_rules frame_caption_loop intro: frame_trans)
    with off have "group_config s3 (chat_id (msg_chat msg), ''links'') = Some v"
      by (simp add: frame_def)
    then have "caption_links w msg s3 = (Inr None, s3)"
      using off(2) by (rule caption_links_off)
    with by_links(4) show ?thesis by auto
  qed
  with run show ?thesis by simp
qed


lemma group_channel_check_user:
  "group_channel_check c (Some ''user'') rg rc s = (Inr None, s)"
  by (simp add: group_channel_check_def pbind_def pret_def)

lemma entity_step_user_mention:
  assumes "ent_type ent = ''mention''" and "text_slice msg ent = Inr t"
    and "fst (process_user_type w (lstrip_at t) s) = Inr (Some ''user'')"
  shows "fst (entity_step w msg ent s) = Inr None"
  using assms
  by (auto simp add: entity_step_def entity_email_def entity_mention_def Let_def pbind_def
      pret_def lift_def group_channel_check_user
      split: prod.splits sum.splits)

lemma entity_loop_skip:
  assumes "fst (entity_step w msg ent s) = Inr None"
  shows "entity_loop w msg (ent # ents) s = entity_loop w msg ents (snd (entity_step w msg ent s))"
  using assms by (cases "entity_step w msg ent s") simp

lemma free_text_user_mention:
  assumes "msg_text msg = Some t" and "re_search_mention w t = Some u"
    and "fst (process_user_type w u s) = Inr (Some ''user'')"
  shows "fst (free_text_mention w msg s) = Inr None"
  using assms
  by (auto simp add: free_text_mention_def pbind_def pret_def
      split: prod.splits sum.splits)

lemma text_rules_after_none:
  assumes "fst (free_text_mention w msg s) = Inr None"
  shows "fst (text_rules w msg s) = Inr None \<or> fst (text_rules w msg s) = Inr (Some ''forwarded'')"
  using assms
  by (auto simp add: text_rules_def pbind_def pret_def read_setting_def get_setting_def
      GROUP_SETTING_KEYS_def
      split: prod.splits sum.splits option.splits)

lemma caption_step_user_mention:
  assumes "fst (process_user_type w (lstrip_at u) s) = Inr (Some ''user'')"
  shows "fst (caption_step w msg u s) = Inr None"
  using assms
  by (auto simp add: caption_step_def pbind_def group_channel_check_user
      split: prod.splits sum.splits)

lemma caption_loop_skip:
  assumes "fst (caption_step w msg u s) = Inr None"
  shows "caption_loop w msg (u # us) s = caption_loop w msg us (snd (caption_step w msg u s))"
  using assms by (cases "caption_step w msg u s") simp

text \<open>
  Claim C7. A mention that resolves to the type \<^verbatim>\<open>user\<close> never flags the message,
  whatever the settings are. As an entity, its round of the loop decides nothing and
  the loop goes on with the entities after it; in free text, the free-text rule decides
  nothing, and the block it stands in can only answer \<^verbatim>\<open>forwarded\<close>; in the caption,
  its round decides nothing and the loop goes on with the names after it.
\<close>

theorem user_mention_never_flags:
  "(ent_type ent = ''mention'' \<and> text_slice msg ent = Inr t \<and>
    fst (process_user_type w (lstrip_at t) s) = Inr (Some ''user'') \<longrightarrow>
      fst (entity_step w msg ent s) = Inr None \<and>
      entity_loop w msg (ent # ents) s =
        entity_loop w msg ents (snd (entity_step w msg ent s))) \<and>
   (msg_text msg = Some t' \<and> re_search_mention w t' = Some u \<and>
    fst (process_user_type w u s) = Inr (Some ''user'') \<longrightarrow>
      fst (free_text_mention w msg s) = Inr None \<and>
      fst (text_rules w msg s) \<in> {Inr None, Inr (Some ''forwarded'')}) \<and>
   (fst (process_user_type w (lstrip_at u') s) = Inr (Some ''user'') \<longrightarrow>
      fst (caption_step w msg u' s) = Inr None \<and>
      caption_loop w msg (u' # us) s =
        caption_loop w msg us (snd (caption_step w msg u' s)))"
proof (intro conjI impI)
  assume a: "ent_type ent = ''mention'' \<and> text_slice msg ent = Inr t \<and>
    fst (process_user_type w (lstrip_at t) s) = Inr (Some ''user'')"
  then show e: "fst (entity_step w msg ent s) = Inr None"
    by (auto intro: entity_step_user_mention)
  then show "entity_loop w msg (ent # ents) s =
        entity_loop w msg ents (snd (entity_step w msg ent s))"
    by (rule entity_loop_skip)
next
  assume a: "msg_text msg = Some t' \<and> re_search_mention w t' = Some u \<and>
    fst (process_user_type w u s) = Inr (Some ''user'')"
  then show f: "fst (free_text_mention w msg s) = Inr None"
    by (auto intro: free_text_user_mention)
  then show "fst (text_rules w msg s) \<in> {Inr None, Inr (Some ''forwarded'')}"
    using text_rules_after_none by blast
next
  assume a: "fst (process_user_type w (lstrip_at u') s) = Inr (Some ''user'')"
  then show c: "fst (caption_step w msg u' s) = Inr None"
    by (rule caption_step_user_mention)
  then show "caption_loop w msg (u' # us) s =
        caption_loop w msg us (snd (caption_step w msg u' s))"
    by (rule caption_loop_skip)
qed

lemma excepted_link_entity_skipped:
  assumes "ent_type ent = ''url'' \<or> ent_type ent = ''text_link''"
    and "text_slice msg ent = Inr url0"
    and "urlparse_netloc w (if \<not> startswith url0 ''//'' \<and> \<not> startswith url0 ''http''
                            then ''//'' @ url0 else url0) = Inr host"
    and "lower host \<in> set (LINKS_EXCEPTIONS w)"
  shows "entity_step w msg ent s = (Inr None, s)"
  using assms
  by (auto simp add: entity_step_def entity_email_def entity_mention_def Let_def pbind_def
      pret_def lift_def read_setting_def get_setting_def GROUP_SETTING_KEYS_def
      split: option.splits)

section \<open>Side effects of moderation\<close>

lemma appends_refl: "appends s s"
  by (simp add: appends_def)

lemma appends_trans: "appends s s1 \<Longrightarrow> appends s1 s2 \<Longrightarrow> appends s s2"
  by (auto simp add: appends_def)

lemma appends_api: "api w c s = (r, s') \<Longrightarrow> appends s s'"
  by (auto simp add: api_def appends_def)

lemma appends_utcnow: "utcnow w s = (r, s') \<Longrightarrow> appends s s'"
  by (auto simp add: utcnow_def appends_def)

lemma appends_pbind:
  assumes "pbind m k s = (r, s')"
    and "\<And>r1 s1. m s = (r1, s1) \<Longrightarrow> appends s s1"
    and "\<And>x s1 r2 s2. k x s1 = (r2, s2) \<Longrightarrow> appends s1 s2"
  shows "appends s s'"
proof (cases "m s")
  case (Pair r1 s1)
  then have a1: "appends s s1" by (rule assms(2))
  show ?thesis
  proof (cases r1)
    case (Inl e)
    with Pair assms(1) a1 show ?thesis by (simp add: pbind_def)
  next
    case (Inr x)
    with Pair assms(1) have "k x s1 = (r, s')" by (simp add: pbind_def)
    then have "appends s1 s'" by (rule assms(3))
    with a1 show ?thesis by (rule appends_trans)
  qed
qed

lemma appends_notify: "notify w msg s = (r, s') \<Longrightarrow> appends s s'"
  by (auto simp add: notify_def pbind_def pret_def utcnow_def api_def appends_def
      split: if_splits)

lemma appends_publog_notice: "publog_notice w msg s = (r, s') \<Longrightarrow> appends s s'"
  by (auto simp add: publog_notice_def pbind_def pret_def read_setting_def appends_refl
      dest: appends_notify split: if_splits sum.splits)

lemma appends_update_delete_events: "update_delete_events w msg s = (r, s') \<Longrightarrow> appends s s'"
  by (auto simp add: update_delete_events_def pbind_def utcnow_def appends_def)

lemma appends_send_formats: "send_formats w msg reason chid formats s = (r, s') \<Longrightarrow> appends s s'"
  by (auto simp add: send_formats_def pbind_def pret_def praise_def lift_def utcnow_def api_def
      appends_def split: if_splits sum.splits option.splits prod.splits)

lemma appends_audit_channel: "audit_channel w msg reason chid s = (r, s') \<Longrightarrow> appends s s'"
  by (auto simp add: audit_channel_def pbind_def read_setting_def try_except_def log_error_def
      dest!: appends_send_formats split: sum.splits prod.splits)
    (auto simp add: appends_def)

lemma appends_audit_loop: "audit_loop w msg reason ids s = (r, s') \<Longrightarrow> appends s s'"
proof (induction ids arbitrary: s)
  case Nil
  then show ?case by (simp add: appends_refl)
next
  case (Cons chid ids)
  obtain r1 s1 where step: "audit_channel w msg reason chid s = (r1, s1)"
    by (cases "audit_channel w msg reason chid s")
  then have a1: "appends s s1" by (rule appends_audit_channel)
  show ?case
  proof (cases r1)
    case (Inl e)
    with Cons.prems step a1 show ?thesis by simp
  next
    case (Inr u)
    with Cons.prems step have "audit_loop w msg reason ids s1 = (r, s')" by simp
    then have "appends s1 s'" by (rule Cons.IH)
    with a1 show ?thesis by (rule appends_trans)
  qed
qed

lemma appends_audit: "audit w msg reason s = (r, s') \<Longrightarrow> appends s s'"
  by (auto simp add: audit_def pbind_def read_setting_def lift_def appends_refl
      dest: appends_audit_loop split: sum.splits prod.splits)


lemma save_event_fails:
  "effect_fails w (EventSave (the_event w msg reason s)) \<Longrightarrow>
   save_event w ''delete_msg'' msg reason s =
     (Inl BackendError,
      s\<lparr>ticks := Suc (ticks s), effects := effects s @ [EventSave (the_event w msg reason s)]\<rparr>)"
  by (simp add: save_event_def pbind_def utcnow_def db_event_save_def the_event_def)

lemma save_event_ok:
  "\<not> effect_fails w (EventSave (the_event w msg reason s)) \<Longrightarrow>
   save_event w ''delete_msg'' msg reason s =
     (Inr (),
      s\<lparr>ticks := Suc (ticks s), events := events s @ [the_event w msg reason s],
        effects := effects s @ [EventSave (the_event w msg reason s)]\<rparr>)"
  by (simp add: save_event_def pbind_def utcnow_def db_event_save_def the_event_def)

lemma report_fails:
  assumes "effect_fails w (EventSave (the_event w msg reason s))"
  shows "report w msg reason s =
     (Inl BackendError,
      s\<lparr>ticks := Suc (ticks s), effects := effects s @ [EventSave (the_event w msg reason s)]\<rparr>)"
  by (simp add: report_def pbind_def save_event_fails [OF assms])

lemma report_ok:
  assumes ok: "\<not> effect_fails w (EventSave (the_event w msg reason s))"
    and run: "report w msg reason s = (r, s')"
  shows "(\<exists>rest. effects s' = effects s @ EventSave (the_event w msg reason s) # rest) \<and>
         events s' = events s @ [the_event w msg reason s]"
proof -
  define s1 where "s1 = s\<lparr>ticks := Suc (ticks s), events := events s @ [the_event w msg reason s],
        effects := effects s @ [EventSave (the_event w msg reason s)]\<rparr>"
  define rest where "rest = pbind (publog_notice w msg) (\<lambda>_.
     pbind (update_delete_events w msg) (\<lambda>_. audit w msg reason))"
  have "report w msg reason s = rest s1"
    by (simp add: report_def pbind_def save_event_ok [OF ok] s1_def rest_def)
  with run have "rest s1 = (r, s')" by simp
  then have "appends s1 s'"
    unfolding rest_def
    by (elim appends_pbind appends_publog_notice appends_update_delete_events appends_audit)
  then show ?thesis by (auto simp add: appends_def s1_def)
qed

lemma moderate_non_admin:
  assumes "chat_administrators w (chat_id (msg_chat msg)) = Inr admins"
    and "u_id (from_user msg) \<notin> set admins"
    and "report w msg reason s = (r, s1)"
  shows "moderate w msg reason s =
     (if effect_fails w (DeleteMessage (chat_id (msg_chat msg)) (message_id msg))
      then Inl BackendError else r,
      s1\<lparr>effects := effects s1 @ [DeleteMessage (chat_id (msg_chat msg)) (message_id msg)]\<rparr>)"
  using assms
  by (simp add: moderate_def pbind_def lift_def try_finally_def delete_message_def api_def)

text \<open>
  Claim C3, as amended. For a flagged message of a sender who is no administrator, the
  write of the deletion event is the first side effect and the deletion is the last.
  When the write succeeds, the event is stored before the deletion is issued. When the
  write raises, nothing is stored, the deletion is issued all the same (by the
  \<^verbatim>\<open>finally\<close> clause), and the handler raises.
\<close>

theorem event_write_then_delete:
  assumes "chat_administrators w (chat_id (msg_chat msg)) = Inr admins"
    and "u_id (from_user msg) \<notin> set admins"
  shows "(\<not> effect_fails w (EventSave (the_event w msg reason s)) \<longrightarrow>
           (\<exists>rest. effects (snd (moderate w msg reason s)) =
                effects s @ EventSave (the_event w msg reason s) # rest @
                [DeleteMessage (chat_id (msg_chat msg)) (message_id msg)]) \<and>
           events (snd (moderate w msg reason s)) = events s @ [the_event w msg reason s]) \<and>
         (effect_fails w (EventSave (the_event w msg reason s)) \<longrightarrow>
           effects (snd (moderate w msg reason s)) =
             effects s @ [EventSave (the_event w msg reason s),
                          DeleteMessage (chat_id (msg_chat msg)) (message_id msg)] \<and>
           events (snd (moderate w msg reason s)) = events s \<and>
           fst (moderate w msg reason s) = Inl BackendError)"
proof (intro conjI impI)
  assume ok: "\<not> effect_fails w (EventSave (the_event w msg reason s))"
  obtain r s1 where run: "report w msg reason s = (r, s1)"
    by (cases "report w msg reason s")
  from report_ok [OF ok run] obtain rest where
    eff: "effects s1 = effects s @ EventSave (the_event w msg reason s) # rest"
    and evs: "events s1 = events s @ [the_event w msg reason s]" by blast
  note m = moderate_non_admin [OF assms run]
  show "\<exists>rest. effects (snd (moderate w msg reason s)) =
                effects s @ EventSave (the_event w msg reason s) # rest @
                [DeleteMessage (chat_id (msg_chat msg)) (message_id msg)]"
    by (rule exI [of _ rest]) (simp add: m eff)
  show "events (snd (moderate w msg reason s)) = events s @ [the_event w msg reason s]"
    by (simp add: m evs)
next
  assume bad: "effect_fails w (EventSave (the_event w msg reason s))"
  note m = moderate_non_admin [OF assms report_fails [OF bad]]
  show "effects (snd (moderate w msg reason s)) =
             effects s @ [EventSave (the_event w msg reason s),
                          DeleteMessage (chat_id (msg_chat msg)) (message_id msg)]"
    by (simp add: m)
  show "events (snd (moderate w msg reason s)) = events s"
    by (simp add: m)
  show "fst (moderate w msg reason s) = Inl BackendError"
    by (simp add: m)
qed


lemma notify_open:
  assumes "should_notify (delete_events s) (event_key msg) (clock w (ticks s))"
  shows "\<exists>r s'. notify w msg s = (r, s') \<and>
           effects s' = effects s @ [SendMessage (chat_id (msg_chat msg)) (Text NOTICE)] \<and>
           events s' = events s"
  using assms by (simp add: notify_def pbind_def utcnow_def api_def)

lemma notify_closed:
  assumes "\<not> should_notify (delete_events s) (event_key msg) (clock w (ticks s))"
  shows "notify w msg s = (Inr (), s\<lparr>ticks := Suc (ticks s)\<rparr>)"
proof -
  from assms have "delete_events s (event_key msg) \<noteq> None"
    by (auto simp add: should_notify_def split: option.splits)
  with assms show ?thesis
    by (auto simp add: notify_def pbind_def utcnow_def pret_def)
qed

lemma report_notice:
  assumes ok: "\<not> effect_fails w (EventSave (the_event w msg reason s))"
    and publog: "get_setting (group_config s) (chat_id (msg_chat msg)) ''publog'' (PBool True) = Inr v"
      "truthy v"
    and win: "should_notify (delete_events s) (event_key msg) (clock w (Suc (ticks s)))"
    and run: "report w msg reason s = (r, s')"
  shows "\<exists>rest. effects s' =
           effects s @ EventSave (the_event w msg reason s) #
             SendMessage (chat_id (msg_chat msg)) (Text NOTICE) # rest"
proof -
  define s1 where "s1 = s\<lparr>ticks := Suc (ticks s), events := events s @ [the_event w msg reason s],
        effects := effects s @ [EventSave (the_event w msg reason s)]\<rparr>"
  define rest where "rest = pbind (update_delete_events w msg) (\<lambda>_. audit w msg reason)"
  have "should_notify (delete_events s1) (event_key msg) (clock w (ticks s1))"
    using win by (simp add: s1_def)
  from notify_open [OF this] obtain rn s2 where
    n: "notify w msg s1 = (rn, s2)"
    and e2: "effects s2 = effects s1 @ [SendMessage (chat_id (msg_chat msg)) (Text NOTICE)]"
    by blast
  have pn: "publog_notice w msg s1 = (rn, s2)"
    using publog n by (simp add: publog_notice_def pbind_def read_setting_def s1_def)
  have rep: "report w msg reason s = pbind (publog_notice w msg) (\<lambda>_. rest) s1"
    by (simp add: report_def pbind_def save_event_ok [OF ok] s1_def rest_def)
  show ?thesis
  proof (cases rn)
    case (Inl e)
    with rep pn run have "s' = s2" by (simp add: pbind_def)
    with e2 show ?thesis by (simp add: s1_def)
  next
    case (Inr u)
    with rep pn run have "rest s2 = (r, s')" by (simp add: pbind_def)
    then have "appends s2 s'"
      unfolding rest_def by (elim appends_pbind appends_update_delete_events appends_audit)
    with e2 show ?thesis by (auto simp add: appends_def s1_def)
  qed
qed

text \<open>
  Claim C10. For a flagged message of a sender who is no administrator, with the event
  written, \<^verbatim>\<open>publog\<close> on and the throttle window open, the effect right after the
  event write is the public notice to the chat, and its text is the constant
  \<open>NOTICE\<close>: the template with both \<^verbatim>\<open>%s\<close> left as they are, the same for every sender
  and every reason.
\<close>

theorem public_notice_is_fixed:
  assumes "chat_administrators w (chat_id (msg_chat msg)) = Inr admins"
    and "u_id (from_user msg) \<notin> set admins"
    and "\<not> effect_fails w (EventSave (the_event w msg reason s))"
    and "get_setting (group_config s) (chat_id (msg_chat msg)) ''publog'' (PBool True) = Inr v"
    and "truthy v"
    and "should_notify (delete_events s) (event_key msg) (clock w (Suc (ticks s)))"
  shows "\<exists>rest. effects (snd (moderate w msg reason s)) =
           effects s @ EventSave (the_event w msg reason s) #
             SendMessage (chat_id (msg_chat msg)) (Text NOTICE) # rest"
proof -
  obtain r s1 where run: "report w msg reason s = (r, s1)"
    by (cases "report w msg reason s")
  from report_notice [OF assms(3-6) run] obtain rest where
    "effects s1 = effects s @ EventSave (the_event w msg reason s) #
             SendMessage (chat_id (msg_chat msg)) (Text NOTICE) # rest" by blast
  then show ?thesis
    by (simp add: moderate_non_admin [OF assms(1,2) run])
qed

lemma audit_channel_total: "fst (audit_channel w msg reason chid s) = Inr ()"
  by (simp add: audit_channel_def pbind_def read_setting_def get_setting_def
      GROUP_SETTING_KEYS_def try_except_def log_error_def
      split: option.splits prod.splits sum.splits)

lemma audit_channel_sends:
  assumes "get_setting (group_config s) chid ''logformat'' (PList [''simple'']) = Inr (PList fs)"
  shows "effects (snd (audit_channel w msg reason chid s)) =
           effects s @ upto_failure (effect_fails w) (planned_sends w msg reason chid fs s) \<and>
         error_log (snd (audit_channel w msg reason chid s)) =
           error_log s @
           (if list_ex (effect_fails w) (planned_sends w msg reason chid fs s) \<or>
               ''simple'' \<in> set fs \<and> text_or_caption msg = None
            then [chid] else [])"
  using assms
  by (auto simp add: audit_channel_def pbind_def read_setting_def try_except_def
      send_formats_def lift_def api_def log_error_def pret_def praise_def utcnow_def
      planned_sends_def split: option.splits)


lemma audit_loop_continues:
  "audit_loop w msg reason (chid # ids) s =
     audit_loop w msg reason ids (snd (audit_channel w msg reason chid s))"
  using audit_channel_total [of w msg reason chid s]
  by (cases "audit_channel w msg reason chid s") simp

text \<open>
  Claim C4, as amended. Failures of the audit dispatch are isolated per channel, not
  per format. The sends a channel asks for are issued in the order forward, json,
  simple, up to and including the first that raises: a failing forward leaves json and
  simple unsent, a failing json leaves simple unsent, and each failure is logged once
  for the channel; when none raises, all are issued and nothing is logged. Whatever
  happens inside, the dispatch to one channel never raises, so the loop goes on with
  the channels after it; and for a sender who is no administrator the deletion is the
  last effect of the handler.
\<close>

theorem audit_failure_isolated_per_channel:
  assumes "chat_administrators w (chat_id (msg_chat msg)) = Inr admins"
    and "u_id (from_user msg) \<notin> set admins"
  shows "(get_setting (group_config s) chid ''logformat'' (PList [''simple'']) = Inr formats \<and>
          py_in ''forward'' formats = Inr True \<and>
          effect_fails w (ForwardMessage chid (chat_id (msg_chat msg)) (message_id msg)) \<longrightarrow>
            audit_channel w msg reason chid s =
              (Inr (), s\<lparr>effects := effects s @
                          [ForwardMessage chid (chat_id (msg_chat msg)) (message_id msg)],
                       error_log := error_log s @ [chid]\<rparr>)) \<and>
         fst (audit_channel w msg reason chid s) = Inr () \<and>
         (\<exists>before. effects (snd (moderate w msg reason s)) =
            before @ [DeleteMessage (chat_id (msg_chat msg)) (message_id msg)]) \<and>
         (get_setting (group_config s) chid ''logformat'' (PList [''simple'']) = Inr (PList fs) \<longrightarrow>
            effects (snd (audit_channel w msg reason chid s)) =
              effects s @ upto_failure (effect_fails w) (planned_sends w msg reason chid fs s) \<and>
            error_log (snd (audit_channel w msg reason chid s)) =
              error_log s @
              (if list_ex (effect_fails w) (planned_sends w msg reason chid fs s) \<or>
                  ''simple'' \<in> set fs \<and> text_or_caption msg = None
               then [chid] else [])) \<and>
         (get_setting (group_config s) chid ''logformat'' (PList [''simple'']) = Inr (PList fs) \<and>
          ''json'' \<in> set fs \<and>
          \<not> (''forward'' \<in> set fs \<and>
             effect_fails w (ForwardMessage chid (chat_id (msg_chat msg)) (message_id msg))) \<and>
          effect_fails w (SendMessage chid (JsonLog (from_info msg) msg reason (clock w (ticks s)))) \<longrightarrow>
            effects (snd (audit_channel w msg reason chid s)) =
              effects s @
              (if ''forward'' \<in> set fs
               then [ForwardMessage chid (chat_id (msg_chat msg)) (message_id msg)] else []) @
              [SendMessage chid (JsonLog (from_info msg) msg reason (clock w (ticks s)))] \<and>
            error_log (snd (audit_channel w msg reason chid s)) = error_log s @ [chid]) \<and>
         (get_setting (group_config s) chid ''logformat'' (PList [''simple'']) = Inr (PList fs) \<and>
          ''simple'' \<in> set fs \<and> text_or_caption msg = Some t \<and>
          \<not> (''forward'' \<in> set fs \<and>
             effect_fails w (ForwardMessage chid (chat_id (msg_chat msg)) (message_id msg))) \<and>
          \<not> (''json'' \<in> set fs \<and>
             effect_fails w (SendMessage chid (JsonLog (from_info msg) msg reason (clock w (ticks s))))) \<and>
          effect_fails w (SendMessage chid (Text (simple_content msg reason (html_escape t)))) \<longrightarrow>
            effects (snd (audit_channel w msg reason chid s)) =
              effects s @
              (if ''forward'' \<in> set fs
               then [ForwardMessage chid (chat_id (msg_chat msg)) (message_id msg)] else []) @
              (if ''json'' \<in> set fs
               then [SendMessage chid (JsonLog (from_info msg) msg reason (clock w (ticks s)))]
               else []) @
              [SendMessage chid (Text (simple_content msg reason (html_escape t)))] \<and>
            error_log (snd (audit_channel w msg reason chid s)) = error_log s @ [chid]) \<and>
         (get_setting (group_config s) chid ''logformat'' (PList [''simple'']) = Inr (PList fs) \<and>
          \<not> list_ex (effect_fails w) (planned_sends w msg reason chid fs s) \<and>
          \<not> (''simple'' \<in> set fs \<and> text_or_caption msg = None) \<longrightarrow>
            effects (snd (audit_channel w msg reason chid s)) =
              effects s @ planned_sends w msg reason chid fs s \<and>
            error_log (snd (audit_channel w msg reason chid s)) = error_log s) \<and>
         audit_loop w msg reason (chid # ids) s =
           audit_loop w msg reason ids (snd (audit_channel w msg reason chid s))"
proof -
  have fwd: "get_setting (group_config s) chid ''logformat'' (PList [''simple'']) = Inr formats \<and>
          py_in ''forward'' formats = Inr True \<and>
          effect_fails w (ForwardMessage chid (chat_id (msg_chat msg)) (message_id msg)) \<longrightarrow>
            audit_channel w msg reason chid s =
              (Inr (), s\<lparr>effects := effects s @
                          [ForwardMessage chid (chat_id (msg_chat msg)) (message_id msg)],
                       error_log := error_log s @ [chid]\<rparr>)"
    by (simp add: audit_channel_def pbind_def read_setting_def try_except_def send_formats_def
        lift_def api_def log_error_def)
  obtain r s1 where run: "report w msg reason s = (r, s1)"
    by (cases "report w msg reason s")
  have del: "\<exists>before. effects (snd (moderate w msg reason s)) =
            before @ [DeleteMessage (chat_id (msg_chat msg)) (message_id msg)]"
    by (rule exI [of _ "effects s1"]) (simp add: moderate_non_admin [OF assms run])
  have gen: "get_setting (group_config s) chid ''logformat'' (PList [''simple'']) = Inr (PList fs) \<longrightarrow>
            effects (snd (audit_channel w msg reason chid s)) =
              effects s @ upto_failure (effect_fails w) (planned_sends w msg reason chid fs s) \<and>
            error_log (snd (audit_channel w msg reason chid s)) =
              error_log s @
              (if list_ex (effect_fails w) (planned_sends w msg reason chid fs s) \<or>
                  ''simple'' \<in> set fs \<and> text_or_caption msg = None
               then [chid] else [])"
    using audit_channel_sends [of s chid fs w msg reason] by blast
  have js: "get_setting (group_config s) chid ''logformat'' (PList [''simple'']) = Inr (PList fs) \<and>
          ''json'' \<in> set fs \<and>
          \<not> (''forward'' \<in> set fs \<and>
             effect_fails w (ForwardMessage chid (chat_id (msg_chat msg)) (message_id msg))) \<and>
          effect_fails w (SendMessage chid (JsonLog (from_info msg) msg reason (clock w (ticks s)))) \<longrightarrow>
            effects (snd (audit_channel w msg reason chid s)) =
              effects s @
              (if ''forward'' \<in> set fs
               then [ForwardMessage chid (chat_id (msg_chat msg)) (message_id msg)] else []) @
              [SendMessage chid (JsonLog (from_info msg) msg reason (clock w (ticks s)))] \<and>
            error_log (snd (audit_channel w msg reason chid s)) = error_log s @ [chid]"
    using audit_channel_sends [of s chid fs w msg reason]
    by (auto simp add: planned_sends_def)
  have si: "get_setting (group_config s) chid ''logformat'' (PList [''simple'']) = Inr (PList fs) \<and>
          ''simple'' \<in> set fs \<and> text_or_caption msg = Some t \<and>
          \<not> (''forward'' \<in> set fs \<and>
             effect_fails w (ForwardMessage chid (chat_id (msg_chat msg)) (message_id msg))) \<and>
          \<not> (''json'' \<in> set fs \<and>
             effect_fails w (SendMessage chid (JsonLog (from_info msg) msg reason (clock w (ticks s))))) \<and>
          effect_fails w (SendMessage chid (Text (simple_content msg reason (html_escape t)))) \<longrightarrow>
            effects (snd (audit_channel w msg reason chid s)) =
              effects s @
              (if ''forward'' \<in> set fs
               then [ForwardMessage chid (chat_id (msg_chat msg)) (message_id msg)] else []) @
              (if ''json'' \<in> set fs
               then [SendMessage chid (JsonLog (from_info msg) msg reason (clock w (ticks s)))]
               else []) @
              [SendMessage chid (Text (simple_content msg reason (html_escape t)))] \<and>
            error_log (snd (audit_channel w msg reason chid s)) = error_log s @ [chid]"
    using audit_channel_sends [of s chid fs w msg reason]
    by (auto simp add: planned_sends_def)
  have upto_ok: "\<And>bad es. \<not> list_ex bad es \<Longrightarrow> upto_failure bad es = es"
  proof -
    fix bad :: "effect \<Rightarrow> bool" and es
    show "\<not> list_ex bad es \<Longrightarrow> upto_failure bad es = es"
      by (induction es) auto
  qed
  have ok: "get_setting (group_config s) chid ''logformat'' (PList [''simple'']) = Inr (PList fs) \<and>
          \<not> list_ex (effect_fails w) (planned_sends w msg reason chid fs s) \<and>
          \<not> (''simple'' \<in> set fs \<and> text_or_caption msg = None) \<longrightarrow>
            effects (snd (audit_channel w msg reason chid s)) =
              effects s @ planned_sends w msg reason chid fs s \<and>
            error_log (snd (audit_channel w msg reason chid s)) = error_log s"
    using audit_channel_sends [of s chid fs w msg reason]
    by (auto simp add: upto_ok)
  from fwd audit_channel_total [of w msg reason chid s] del gen js si ok
    audit_loop_continues [of w msg reason chid ids s]
  show ?thesis by blast
qed


section \<open>Evaluation on concrete inputs\<close>

lemmas prog_defs = Let_def pret_def praise_def lift_def pbind_def try_except_def try_finally_def
  utcnow_def api_def

lemmas string_defs = lower_def lower_char_def lstrip_at_def startswith_def str_int_def
  fmt_s_def html_escape_def escape_char_def truthy_str_def

lemmas store_defs = GROUP_SETTING_KEYS_def get_setting_def read_setting_def
  db_config_upsert_def set_setting_def db_user_find_one_def db_user_upsert_def
  process_user_type_def

lemmas classify_defs = USERNAME_EXCEPTIONS_def text_slice_def group_channel_check_def
  entity_mention_def entity_email_def entity_step_def free_text_mention_def is_forward_def
  text_rules_def caption_or_empty_def caption_step_def caption_links_def classify_def

lemmas moderate_defs = db_event_save_def save_event_def HOUR_def should_notify_def
  record_notified_def NOTICE_def event_key_def notify_def update_delete_events_def
  from_chatname_def from_username_def from_info_def text_or_caption_def simple_content_def
  send_formats_def log_error_def audit_channel_def publog_notice_def audit_def report_def
  delete_message_def moderate_def handle_any_msg_def the_event_def

lemmas world_defs = ascii_letters_def is_alpha_def is_word_def is_space_def match_mention_def
  search_mention_def strip_scheme_def netloc_of_def caption_usernames_def
  caption_external_links_def directory_def world0_def state0_def user7_def chat1_def
  text_msg_def

lemmas all_defs = prog_defs string_defs store_defs classify_defs moderate_defs world_defs

section \<open>The claims on concrete inputs, the settings store and the throttle\<close>

text \<open>
  Claim C8. \<^verbatim>\<open>set_setting\<close> with a key outside \<^verbatim>\<open>GROUP_SETTING_KEYS\<close> fails its
  assertion and leaves the state as it was. With a valid key, a failing upsert raises
  and leaves the state as it was, the dictionary included; a successful upsert stores
  the value, and \<^verbatim>\<open>get_setting\<close> then returns it.
\<close>

theorem set_setting_atomic:
  "(key \<notin> set GROUP_SETTING_KEYS \<longrightarrow>
      set_setting w gid key v s = (Inl AssertionError, s)) \<and>
   (key \<in> set GROUP_SETTING_KEYS \<and> db_fails w (ConfigUpsert gid key v) \<longrightarrow>
      set_setting w gid key v s = (Inl BackendError, s)) \<and>
   (key \<in> set GROUP_SETTING_KEYS \<and> \<not> db_fails w (ConfigUpsert gid key v) \<longrightarrow>
      (\<exists>s'. set_setting w gid key v s = (Inr (), s') \<and>
            get_setting (group_config s') gid key d = Inr v \<and>
            config s' (gid, key) = Some v))"
  by (simp add: set_setting_def db_config_upsert_def get_setting_def pbind_def praise_def)

theorem set_setting_atomic_witness:
  "''bogus'' \<notin> set GROUP_SETTING_KEYS \<and>
   set_setting world0 1 ''bogus'' (PBool False) state0 = (Inl AssertionError, state0) \<and>
   ''links'' \<in> set GROUP_SETTING_KEYS \<and>
   db_fails (world0\<lparr>db_fails := \<lambda>d. True\<rparr>) (ConfigUpsert 1 ''links'' (PBool False)) \<and>
   set_setting (world0\<lparr>db_fails := \<lambda>d. True\<rparr>) 1 ''links'' (PBool False) state0
     = (Inl BackendError, state0) \<and>
   get_setting (group_config state0) 1 ''links'' (PBool True) = Inr (PBool True) \<and>
   \<not> db_fails world0 (ConfigUpsert 1 ''links'' (PBool False)) \<and>
   get_setting (group_config (snd (set_setting world0 1 ''links'' (PBool False) state0)))
     1 ''links'' (PBool True) = Inr (PBool False)"
  using set_setting_atomic [of "''bogus''" world0 1 "PBool False" state0 "PBool True"]
    set_setting_atomic [of "''links''" "world0\<lparr>db_fails := \<lambda>d. True\<rparr>" 1 "PBool False" state0 "PBool True"]
    set_setting_atomic [of "''links''" world0 1 "PBool False" state0 "PBool True"]
  by (auto simp add: GROUP_SETTING_KEYS_def world0_def state0_def get_setting_def)

theorem should_notify_boundary_counterexample:
  "\<not> should_notify (record_notified Map.empty (1, 7) 0) (1, 7) (0 + 3600 * 1000000) \<and>
   delete_events throttled_state (event_key link_msg) = Some 0 \<and>
   clock hour_world 1 = 3600 * 1000000 \<and>
   effects (snd (handle_any_msg hour_world link_msg throttled_state)) =
     [EventSave \<lparr>ev_msg = link_msg, ev_date = 0, ev_type = ''delete_msg'',
                 ev_reason = ''external link''\<rparr>,
      DeleteMessage 1 10]"
  by (simp add: hour_world_def throttled_state_def link_msg_def all_defs)

text \<open>
  Claim C1, as amended. The throttle test is true when the pair has no record; after a
  record at time \<open>t\<close> it is true exactly when more than 3600 seconds have passed since
  \<open>t\<close>: false before 3600 seconds, false at exactly 3600 seconds, true after. Times
  are in microseconds, so 3600 seconds are \<open>3600 * 1000000\<close>.
\<close>

theorem should_notify_window:
  "(de k = None \<longrightarrow> should_notify de k now) \<and>
   (should_notify (record_notified de k t) k now \<longleftrightarrow> 3600 * 1000000 < now - t)"
  by (auto simp add: should_notify_def record_notified_def HOUR_def)

theorem should_notify_window_witness:
  "should_notify Map.empty (1, 7) 5 \<and>
   \<not> should_notify (record_notified Map.empty (1, 7) 5) (1, 7) (5 + 3599999999) \<and>
   \<not> should_notify (record_notified Map.empty (1, 7) 5) (1, 7) (5 + 3600000000) \<and>
   should_notify (record_notified Map.empty (1, 7) 5) (1, 7) (5 + 3600000001)"
  using should_notify_window [of Map.empty "(1, 7)" 5 5]
    should_notify_window [of Map.empty "(1, 7)" "5 + 3599999999" 5]
    should_notify_window [of Map.empty "(1, 7)" "5 + 3600000000" 5]
    should_notify_window [of Map.empty "(1, 7)" "5 + 3600000001" 5]
  by simp

text \<open>
  Claim C2, on the code. A forwarded text message \<^verbatim>\<open>@ spamgroup\<close>, with every setting at
  its default: the free-text rule matches and decides \<^verbatim>\<open>@-link to group\<close>, and the
  forwarded test that follows in the same block replaces the reason by \<^verbatim>\<open>forwarded\<close>.
\<close>

theorem forwarded_replaces_mention_reason:
  "search_mention ''@ spamgroup'' = Some ''spamgroup'' \<and>
   fst (free_text_mention world0 forwarded_mention_msg state0) = Inr (Some ''@-link to group'') \<and>
   fst (classify world0 forwarded_mention_msg state0) = Inr (Some ''forwarded'')"
  by (simp add: forwarded_mention_msg_def channel9_def all_defs)

theorem delete_without_event_counterexample:
  "effect_fails (world0\<lparr>effect_fails := event_write_fails\<rparr>)
     (EventSave (the_event (world0\<lparr>effect_fails := event_write_fails\<rparr>) link_msg ''external link'' state0)) \<and>
   events (snd (handle_any_msg (world0\<lparr>effect_fails := event_write_fails\<rparr>) link_msg state0)) = [] \<and>
   effects (snd (handle_any_msg (world0\<lparr>effect_fails := event_write_fails\<rparr>) link_msg state0)) =
     [EventSave \<lparr>ev_msg = link_msg, ev_date = 1000, ev_type = ''delete_msg'',
                 ev_reason = ''external link''\<rparr>,
      DeleteMessage 1 10]"
  by (simp add: event_write_fails_def link_msg_def all_defs)

theorem event_write_then_delete_witness:
  "chat_administrators world0 (chat_id (msg_chat link_msg)) = Inr [100] \<and>
   u_id (from_user link_msg) \<notin> set [100] \<and>
   \<not> effect_fails world0 (EventSave (the_event world0 link_msg ''external link'' state0)) \<and>
   (\<exists>rest. effects (snd (moderate world0 link_msg ''external link'' state0)) =
      effects state0 @ EventSave (the_event world0 link_msg ''external link'' state0) # rest @
      [DeleteMessage 1 10]) \<and>
   events (snd (moderate world0 link_msg ''external link'' state0)) =
     [the_event world0 link_msg ''external link'' state0] \<and>
   effect_fails (world0\<lparr>effect_fails := event_write_fails\<rparr>)
     (EventSave (the_event (world0\<lparr>effect_fails := event_write_fails\<rparr>) link_msg ''external link'' state0)) \<and>
   effects (snd (moderate (world0\<lparr>effect_fails := event_write_fails\<rparr>) link_msg ''external link'' state0)) =
     [EventSave (the_event world0 link_msg ''external link'' state0), DeleteMessage 1 10] \<and>
   events (snd (moderate (world0\<lparr>effect_fails := event_write_fails\<rparr>) link_msg ''external link'' state0)) = [] \<and>
   fst (moderate (world0\<lparr>effect_fails := event_write_fails\<rparr>) link_msg ''external link'' state0) =
     Inl BackendError"
  using event_write_then_delete [of world0 link_msg "[100]" "''external link''" state0]
    event_write_then_delete [of "world0\<lparr>effect_fails := event_write_fails\<rparr>" link_msg "[100]"
      "''external link''" state0]
  by (simp add: world0_def state0_def link_msg_def text_msg_def user7_def chat1_def
      the_event_def event_write_fails_def)


theorem format_failure_counterexample:
  "get_setting (group_config logging_state) 50 ''logformat'' (PList [''simple'']) =
     Inr (PList [''forward'', ''json'', ''simple'']) \<and>
   effect_fails (world0\<lparr>effect_fails := forward_fails\<rparr>) (ForwardMessage 50 1 10) \<and>
   effects (snd (handle_any_msg (world0\<lparr>effect_fails := forward_fails\<rparr>) link_msg logging_state)) =
     [EventSave \<lparr>ev_msg = link_msg, ev_date = 1000, ev_type = ''delete_msg'',
                 ev_reason = ''external link''\<rparr>,
      SendMessage 1 (Text NOTICE),
      ForwardMessage 50 1 10,
      DeleteMessage 1 10] \<and>
   error_log (snd (handle_any_msg (world0\<lparr>effect_fails := forward_fails\<rparr>) link_msg logging_state)) = [50]"
  by (simp add: forward_fails_def logging_state_def link_msg_def all_defs)

theorem audit_failure_isolated_per_channel_witness:
  "chat_administrators (world0\<lparr>effect_fails := forward_fails\<rparr>) (chat_id (msg_chat link_msg)) = Inr [100] \<and>
   u_id (from_user link_msg) \<notin> set [100] \<and>
   get_setting (group_config logging_state) 50 ''logformat'' (PList [''simple'']) =
     Inr (PList [''forward'', ''json'', ''simple'']) \<and>
   py_in ''forward'' (PList [''forward'', ''json'', ''simple'']) = Inr True \<and>
   effect_fails (world0\<lparr>effect_fails := forward_fails\<rparr>)
     (ForwardMessage 50 (chat_id (msg_chat link_msg)) (message_id link_msg)) \<and>
   effects (snd (audit_channel (world0\<lparr>effect_fails := forward_fails\<rparr>) link_msg
                   ''external link'' 50 logging_state)) = [ForwardMessage 50 1 10] \<and>
   error_log (snd (audit_channel (world0\<lparr>effect_fails := forward_fails\<rparr>) link_msg
                   ''external link'' 50 logging_state)) = [50] \<and>
   fst (audit_channel (world0\<lparr>effect_fails := forward_fails\<rparr>) link_msg
          ''external link'' 50 logging_state) = Inr () \<and>
   (\<exists>before. effects (snd (moderate (world0\<lparr>effect_fails := forward_fails\<rparr>) link_msg
                             ''external link'' logging_state)) =
      before @ [DeleteMessage 1 10]) \<and>
   ''json'' \<in> set [''forward'', ''json'', ''simple''] \<and>
   \<not> effect_fails (world0\<lparr>effect_fails := json_fails\<rparr>) (ForwardMessage 50 1 10) \<and>
   effect_fails (world0\<lparr>effect_fails := json_fails\<rparr>)
     (SendMessage 50 (JsonLog (from_info link_msg) link_msg ''external link'' 1000)) \<and>
   effects (snd (audit_channel (world0\<lparr>effect_fails := json_fails\<rparr>) link_msg
                   ''external link'' 50 logging_state)) =
     [ForwardMessage 50 1 10,
      SendMessage 50 (JsonLog (from_info link_msg) link_msg ''external link'' 1000)] \<and>
   error_log (snd (audit_channel (world0\<lparr>effect_fails := json_fails\<rparr>) link_msg
                   ''external link'' 50 logging_state)) = [50] \<and>
   text_or_caption link_msg = Some ''check out http://evil.example/x'' \<and>
   effects (snd (audit_channel world0 link_msg ''external link'' 50 logging_state)) =
     [ForwardMessage 50 1 10,
      SendMessage 50 (JsonLog (from_info link_msg) link_msg ''external link'' 1000),
      SendMessage 50 (Text (simple_content link_msg ''external link''
                              (html_escape ''check out http://evil.example/x'')))] \<and>
   error_log (snd (audit_channel world0 link_msg ''external link'' 50 logging_state)) = []"
  using audit_failure_isolated_per_channel
    [where w = "world0\<lparr>effect_fails := forward_fails\<rparr>" and msg = link_msg
       and admins = "[100]" and s = logging_state and chid = 50
       and formats = "PList [''forward'', ''json'', ''simple'']" and reason = "''external link''"
       and fs = "[''forward'', ''json'', ''simple'']"
       and t = "''check out http://evil.example/x''" and ids = "[]"]
    audit_failure_isolated_per_channel
    [where w = "world0\<lparr>effect_fails := json_fails\<rparr>" and msg = link_msg
       and admins = "[100]" and s = logging_state and chid = 50
       and formats = "PList [''forward'', ''json'', ''simple'']" and reason = "''external link''"
       and fs = "[''forward'', ''json'', ''simple'']"
       and t = "''check out http://evil.example/x''" and ids = "[]"]
    audit_failure_isolated_per_channel
    [where w = world0 and msg = link_msg
       and admins = "[100]" and s = logging_state and chid = 50
       and formats = "PList [''forward'', ''json'', ''simple'']" and reason = "''external link''"
       and fs = "[''forward'', ''json'', ''simple'']"
       and t = "''check out http://evil.example/x''" and ids = "[]"]
  by (simp add: world0_def state0_def logging_state_def link_msg_def text_msg_def user7_def
      chat1_def forward_fails_def json_fails_def get_setting_def GROUP_SETTING_KEYS_def
      planned_sends_def text_or_caption_def truthy_str_def)

theorem links_off_never_link_reason_witness:
  "group_config links_off_state (chat_id (msg_chat link_msg), ''links'') = Some (PBool False) \<and>
   \<not> truthy (PBool False) \<and>
   fst (classify world0 link_msg links_off_state) \<noteq> Inr (Some ''external link'') \<and>
   fst (classify world0 link_msg links_off_state) \<noteq> Inr (Some ''caption external link'') \<and>
   group_config links_off_state (chat_id (msg_chat caption_link_msg), ''links'') = Some (PBool False) \<and>
   fst (classify world0 caption_link_msg links_off_state) \<noteq> Inr (Some ''external link'') \<and>
   fst (classify world0 caption_link_msg links_off_state) \<noteq> Inr (Some ''caption external link'')"
  using links_off_never_link_reason [of links_off_state link_msg "PBool False" world0]
    links_off_never_link_reason [of links_off_state caption_link_msg "PBool False" world0]
  by (simp add: links_off_state_def state0_def link_msg_def caption_link_msg_def text_msg_def
      chat1_def)

text \<open>
  Claim C6, on the code. A link to \<^verbatim>\<open>steemit.com\<close>, a site of the exception list, in
  the caption flags the message as \<^verbatim>\<open>caption external link\<close>, while the same site under
  a URL entity is let through; a URL entity \<^verbatim>\<open>Steemit.com\<close> is flagged when the list
  spells the site \<^verbatim>\<open>Steemit.com\<close>, since only the host is lowercased; and a URL entity
  \<^verbatim>\<open>http://steemit.com:80/x\<close> is flagged, since the host is compared together with
  its port.
\<close>

theorem exception_list_not_applied:
  "''steemit.com'' \<in> set (LINKS_EXCEPTIONS world0) \<and>
   find_external_links world0 ''steemit.com/x'' = [''steemit.com/x''] \<and>
   fst (classify world0 caption_link_msg state0) = Inr (Some ''caption external link'') \<and>
   fst (classify world0 excepted_link_msg state0) = Inr None \<and>
   LINKS_EXCEPTIONS capital_world = [''Steemit.com''] \<and>
   urlparse_netloc capital_world ''//Steemit.com'' = Inr ''Steemit.com'' \<and>
   fst (classify capital_world capital_link_msg state0) = Inr (Some ''external link'') \<and>
   urlparse_netloc world0 ''http://steemit.com:80/x'' = Inr ''steemit.com:80'' \<and>
   fst (classify world0 port_link_msg state0) = Inr (Some ''external link'')"
  by (simp add: caption_link_msg_def excepted_link_msg_def capital_world_def
      capital_link_msg_def port_link_msg_def all_defs)

theorem user_mention_never_flags_witness:
  "ent_type \<lparr>ent_type = ''mention'', ent_offset = 3, ent_length = 6\<rparr> = ''mention'' \<and>
   text_slice user_mention_msg \<lparr>ent_type = ''mention'', ent_offset = 3, ent_length = 6\<rparr> =
     Inr ''@alice'' \<and>
   fst (process_user_type world0 (lstrip_at ''@alice'') state0) = Inr (Some ''user'') \<and>
   fst (entity_step world0 user_mention_msg
          \<lparr>ent_type = ''mention'', ent_offset = 3, ent_length = 6\<rparr> state0) = Inr None \<and>
   msg_text user_free_text_msg = Some ''hi @ alice'' \<and>
   re_search_mention world0 ''hi @ alice'' = Some ''alice'' \<and>
   fst (process_user_type world0 ''alice'' state0) = Inr (Some ''user'') \<and>
   fst (free_text_mention world0 user_free_text_msg state0) = Inr None \<and>
   fst (caption_step world0 caption_link_msg ''@alice'' state0) = Inr None"
  using user_mention_never_flags
    [where ent = "\<lparr>ent_type = ''mention'', ent_offset = 3, ent_length = 6\<rparr>"
       and msg = user_mention_msg and t = "''@alice''" and w = world0 and s = state0
       and ents = "[]" and t' = "''hi @ alice''" and u = "''alice''" and u' = "''@alice''"
       and us = "[]"]
    user_mention_never_flags
    [where ent = "\<lparr>ent_type = ''mention'', ent_offset = 3, ent_length = 6\<rparr>"
       and msg = user_free_text_msg and t = "''@alice''" and w = world0 and s = state0
       and ents = "[]" and t' = "''hi @ alice''" and u = "''alice''" and u' = "''@alice''"
       and us = "[]"]
    user_mention_never_flags
    [where ent = "\<lparr>ent_type = ''mention'', ent_offset = 3, ent_length = 6\<rparr>"
       and msg = caption_link_msg and t = "''@alice''" and w = world0 and s = state0
       and ents = "[]" and t' = "''hi @ alice''" and u = "''alice''" and u' = "''@alice''"
       and us = "[]"]
  by (simp add: user_mention_msg_def user_free_text_msg_def all_defs)

theorem administrator_is_exempt_witness:
  "classify world0 admin_mention_msg state0 =
     (Inr (Some ''@-link to group''),
      state0\<lparr>users := [''spamgroup'' \<mapsto> (''group'', 1000)], ticks := 1\<rparr>) \<and>
   chat_administrators world0 (chat_id (msg_chat admin_mention_msg)) = Inr [100] \<and>
   u_id (from_user admin_mention_msg) \<in> set [100] \<and>
   fst (handle_any_msg world0 admin_mention_msg state0) = Inr () \<and>
   effects (snd (handle_any_msg world0 admin_mention_msg state0)) = [] \<and>
   events (snd (handle_any_msg world0 admin_mention_msg state0)) = [] \<and>
   delete_events (snd (handle_any_msg world0 admin_mention_msg state0)) = Map.empty"
proof -
  have c: "classify world0 admin_mention_msg state0 =
     (Inr (Some ''@-link to group''),
      state0\<lparr>users := [''spamgroup'' \<mapsto> (''group'', 1000)], ticks := 1\<rparr>)"
    by (simp add: admin_mention_msg_def all_defs)
  have a: "chat_administrators world0 (chat_id (msg_chat admin_mention_msg)) = Inr [100]"
    by (simp add: world0_def)
  have u: "u_id (from_user admin_mention_msg) \<in> set [100]"
    by (simp add: admin_mention_msg_def)
  from administrator_is_exempt [OF c a u] c a u show ?thesis
    by (simp add: state0_def)
qed

theorem public_notice_is_fixed_witness:
  "chat_administrators world0 (chat_id (msg_chat link_msg)) = Inr [100] \<and>
   u_id (from_user link_msg) \<notin> set [100] \<and>
   \<not> effect_fails world0 (EventSave (the_event world0 link_msg ''external link'' state0)) \<and>
   get_setting (group_config state0) (chat_id (msg_chat link_msg)) ''publog'' (PBool True) =
     Inr (PBool True) \<and>
   truthy (PBool True) \<and>
   should_notify (delete_events state0) (event_key link_msg) (clock world0 (Suc (ticks state0))) \<and>
   (\<exists>rest. effects (snd (moderate world0 link_msg ''external link'' state0)) =
      EventSave (the_event world0 link_msg ''external link'' state0) #
        SendMessage 1 (Text NOTICE) # rest) \<and>
   (\<exists>rest. effects (snd (moderate world0 (link_msg\<lparr>from_user := user8\<rparr>) ''forwarded'' state0)) =
      EventSave (the_event world0 (link_msg\<lparr>from_user := user8\<rparr>) ''forwarded'' state0) #
        SendMessage 1 (Text NOTICE) # rest)"
  using public_notice_is_fixed [of world0 link_msg "[100]" "''external link''" state0 "PBool True"]
    public_notice_is_fixed [of world0 "link_msg\<lparr>from_user := user8\<rparr>" "[100]" "''forwarded''"
      state0 "PBool True"]
  by (simp add: world0_def state0_def link_msg_def text_msg_def user7_def user8_def chat1_def
      get_setting_def GROUP_SETTING_KEYS_def should_notify_def)

end
